theory Spec2Isabelle
  imports Complex_Main "HOL-Library.Sublist"
begin

section \<open>QuickBooks Online client: a shallow embedding\<close>

text \<open>
  The embedding follows the class \<open>QuickBooksClient\<close> (the OAuth client and request
  builder) function by function.

  Conventions.
  \<^item> An optional field or parameter (\<open>limit?: number\<close>) is an \<open>option\<close>; \<open>None\<close>
    is \<open>undefined\<close>.
  \<^item> JavaScript truthiness is written out: a string is truthy when it is not empty, a
    number when it is not zero, an absent value never.
  \<^item> Page bounds, lifetimes and clock readings (milliseconds since the epoch) are
    integral numbers, as the tools' input schema and the token endpoint have them; an
    \<open>int\<close> stands for the double of that value. Sums and products of them are rounded
    to the nearest double (\<open>round_double\<close>), numbers are printed as JavaScript prints
    them (\<open>ToString\<close>), and a \<open>Date\<close> outside its range is invalid (\<open>new_Date\<close>).
    Numbers beyond the largest double, where JavaScript has \<open>Infinity\<close>, and \<open>NaN\<close>
    are outside these types.
  \<^item> Money amounts and quantities are \<open>real\<close>; their products are not rounded.
  \<^item> A string is a list of code units below 256.
  \<^item> An \<open>async\<close> method that can reject returns a sum, \<open>Inl\<close> the error; a method
    that mutates the client returns the client after the call; the HTTP requests a call
    sends are returned as a list, in the order sent.
\<close>

subsection \<open>Language primitives\<close>

text \<open>The decimal numeral of an integer (\<open>digits\<close>: of one that is not negative).\<close>

function digits :: "int \<Rightarrow> string" where
  "digits n = (if n < 10 then [''0123456789'' ! nat n]
               else digits (n div 10) @ [''0123456789'' ! nat (n mod 10)])"
  by pat_completeness auto
termination
  by (relation "measure nat") auto

declare digits.simps [simp del]

definition show_int :: "int \<Rightarrow> string" where
  "show_int i = (if i < 0 then ''-'' @ digits (- i) else digits i)"

text \<open>
  The double nearest to an integer, ties to the even significand: an integer below
  \<open>2^53\<close> in magnitude is a double; a larger one keeps its 53 leading bits, rounded.
  The result of \<open>+\<close>, \<open>-\<close> and \<open>*\<close> on integral doubles is the exact result
  rounded in this way.
\<close>

function halvings :: "int \<Rightarrow> nat" where
  "halvings a = (if a < 2 ^ 53 then 0 else Suc (halvings (a div 2)))"
  by pat_completeness auto
termination
  by (relation "measure nat") auto

declare halvings.simps [simp del]

definition round_double :: "int \<Rightarrow> int" where
  "round_double x =
    (let a = \<bar>x\<bar>;
         e = halvings a;
         q = a div 2 ^ e;
         r = a mod 2 ^ e;
         q = (if 2 ^ e < 2 * r \<or> (2 * r = 2 ^ e \<and> odd q) then q + 1 else q)
     in sgn x * (q * 2 ^ e))"

text \<open>
  \<open>Number::toString\<close> on an integral double \<open>x\<close>. Up to \<open>2^53\<close> the string is the
  numeral of \<open>x\<close>. Above, its digits are those of the least number of digits \<open>k\<close> for
  which some \<open>s\<close> of \<open>k\<close> digits and some number \<open>m\<close> of zeros give a decimal
  \<open>s \<times> 10^m\<close> that reads back as \<open>x\<close>, the nearest such decimal if there are several
  (17 digits always suffice); the number is written in full when it has at most 21
  digits and with an exponent otherwise.
\<close>

definition candidates :: "int \<Rightarrow> nat \<Rightarrow> (int \<times> nat) list" where
  "candidates x k =
    [(s, n - k).
       n \<leftarrow> [length (digits x), length (digits x) + 1],
       s \<leftarrow> [x div 10 ^ (n - k), x div 10 ^ (n - k) + 1],
       k \<le> n \<and> 10 ^ (k - 1) \<le> s \<and> s < 10 ^ k
       \<and> round_double (s * 10 ^ (n - k)) = x]"

definition nearer :: "int \<Rightarrow> int \<times> nat \<Rightarrow> int \<times> nat \<Rightarrow> int \<times> nat" where
  "nearer x c b =
    (let dc = \<bar>fst c * 10 ^ snd c - x\<bar>;
         db = \<bar>fst b * 10 ^ snd b - x\<bar>
     in if dc < db \<or> (dc = db \<and> even (fst c)) then c else b)"

definition shortest :: "int \<Rightarrow> int \<times> nat" where
  "shortest x =
    (case filter (\<lambda>k. candidates x k \<noteq> []) [1..<18] of
       [] \<Rightarrow> (x, 0)
     | k # ks \<Rightarrow> fold (nearer x) (tl (candidates x k)) (hd (candidates x k)))"

definition ToString_unsigned :: "int \<Rightarrow> string" where
  "ToString_unsigned x =
    (if x \<le> 2 ^ 53 then digits x
     else
       (let (s, m) = shortest x;
            ds = digits s;
            n = length ds + m
        in if n \<le> 21 then ds @ replicate m (CHR ''0'')
           else (if length ds = 1 then ds else [hd ds] @ ''.'' @ tl ds)
                @ ''e+'' @ digits (int n - 1)))"

definition ToString :: "int \<Rightarrow> string" where
  "ToString i = (if i < 0 then ''-'' @ ToString_unsigned (- i) else ToString_unsigned i)"

text \<open>
  \<open>new Date(v)\<close> for an integral \<open>v\<close>: the time value \<open>v\<close>, or an invalid date
  (\<open>None\<close>) when \<open>v\<close> is more than 8.64e15 ms from the epoch. An invalid date is not
  later than any date.
\<close>

definition new_Date :: "int \<Rightarrow> int option" where
  "new_Date v = (if \<bar>v\<bar> \<le> 8640000000000000 then Some v else None)"

fun later :: "int option \<Rightarrow> int \<Rightarrow> bool" where
  "later None t = False"
| "later (Some v) t = (t < v)"

text \<open>\<open>Array.prototype.join\<close>.\<close>

fun join :: "string \<Rightarrow> string list \<Rightarrow> string" where
  "join sep [] = []"
| "join sep [x] = x"
| "join sep (x # y # ys) = x @ sep @ join sep (y # ys)"

text \<open>Truthiness of an optional string, and \<open>x || d\<close> on an optional number.\<close>

fun truthy :: "string option \<Rightarrow> bool" where
  "truthy None = False"
| "truthy (Some s) = (s \<noteq> [])"

fun or_default :: "int option \<Rightarrow> int \<Rightarrow> int" where
  "or_default None d = d"
| "or_default (Some n) d = (if n = 0 then d else n)"

subsection \<open>Query construction\<close>

text \<open>
  The arguments of the private method \<open>query\<close>: entity type, where clause, limit and
  offset (the last two with the defaults 100 and 0 of the parameter list).
\<close>

type_synonym query_args = "string \<times> string option \<times> int option \<times> int option"

text \<open>The local variable \<open>sql\<close> of \<open>query\<close>, as sent in the \<open>query\<close> parameter.\<close>

fun query_sql :: "query_args \<Rightarrow> string" where
  "query_sql (entityType, whereClause, limit, offset) =
    (let limit = (case limit of None \<Rightarrow> 100 | Some l \<Rightarrow> l);
         offset = (case offset of None \<Rightarrow> 0 | Some k \<Rightarrow> k);
         sql = ''SELECT * FROM '' @ entityType;
         sql = (if truthy whereClause then sql @ '' WHERE '' @ the whereClause else sql);
         sql = sql @ '' STARTPOSITION '' @ ToString (round_double (offset + 1))
                   @ '' MAXRESULTS '' @ ToString limit
     in sql)"

record pagination =
  limit :: "int option"
  offset :: "int option"

record vendor_options = pagination +
  activeOnly :: "bool option"

record customer_options = vendor_options +
  search :: "string option"

record status_options = pagination +
  status :: "string option"

record invoice_options = status_options +
  customerId :: "string option"
  startDate :: "string option"
  endDate :: "string option"

record bill_options = status_options +
  vendorId :: "string option"

record account_options = pagination +
  accountType :: "string option"

text \<open>\<open>conditions.length ? conditions.join(" AND ") : undefined\<close>.\<close>

definition where_of :: "string list \<Rightarrow> string option" where
  "where_of conditions =
    (if length conditions \<noteq> 0 then Some (join '' AND '' conditions) else None)"

text \<open>The array \<open>conditions\<close> of each list method, after its pushes.\<close>

definition queryCustomers_conditions :: "customer_options \<Rightarrow> string list" where
  "queryCustomers_conditions options =
    (let conditions = [];
         conditions = (if activeOnly options \<noteq> Some False
                       then conditions @ [''Active = true''] else conditions);
         conditions = (if truthy (search options)
                       then conditions @ [''DisplayName LIKE '%'' @ the (search options) @ ''%'' @ [CHR 0x27]]
                       else conditions)
     in conditions)"

definition queryCustomers_args :: "customer_options \<Rightarrow> query_args" where
  "queryCustomers_args options =
    (''Customer'', where_of (queryCustomers_conditions options),
     Some (or_default (limit options) 100), Some (or_default (offset options) 0))"

definition queryInvoices_conditions :: "invoice_options \<Rightarrow> string list" where
  "queryInvoices_conditions options =
    (let conditions = [];
         conditions = (if truthy (customerId options)
                       then conditions @ [''CustomerRef = ''  @ [CHR 0x27] @ the (customerId options) @ [CHR 0x27]]
                       else conditions);
         conditions = (if status options = Some ''open''
                       then conditions @ [''Balance > '0'' @ [CHR 0x27]]
                       else if status options = Some ''paid''
                       then conditions @ [''Balance = '0'' @ [CHR 0x27]]
                       else conditions);
         conditions = (if truthy (startDate options)
                       then conditions @ [''TxnDate >= '' @ [CHR 0x27] @ the (startDate options) @ [CHR 0x27]]
                       else conditions);
         conditions = (if truthy (endDate options)
                       then conditions @ [''TxnDate <= '' @ [CHR 0x27] @ the (endDate options) @ [CHR 0x27]]
                       else conditions)
     in conditions)"

definition queryInvoices_args :: "invoice_options \<Rightarrow> query_args" where
  "queryInvoices_args options =
    (''Invoice'', where_of (queryInvoices_conditions options),
     Some (or_default (limit options) 100), Some (or_default (offset options) 0))"

definition queryAccounts_conditions :: "account_options \<Rightarrow> string list" where
  "queryAccounts_conditions options =
    (let conditions = [''Active = true''];
         conditions = (if truthy (accountType options)
                       then conditions @ [''AccountType = '' @ [CHR 0x27] @ the (accountType options) @ [CHR 0x27]]
                       else conditions)
     in conditions)"

definition queryAccounts_args :: "account_options \<Rightarrow> query_args" where
  "queryAccounts_args options =
    (''Account'', Some (join '' AND '' (queryAccounts_conditions options)),
     Some (or_default (limit options) 1000), Some (or_default (offset options) 0))"

definition queryVendors_conditions :: "vendor_options \<Rightarrow> string list" where
  "queryVendors_conditions options =
    (let conditions = [];
         conditions = (if activeOnly options \<noteq> Some False
                       then conditions @ [''Active = true''] else conditions)
     in conditions)"

definition queryVendors_args :: "vendor_options \<Rightarrow> query_args" where
  "queryVendors_args options =
    (''Vendor'', where_of (queryVendors_conditions options),
     Some (or_default (limit options) 100), Some (or_default (offset options) 0))"

definition queryBills_conditions :: "bill_options \<Rightarrow> string list" where
  "queryBills_conditions options =
    (let conditions = [];
         conditions = (if truthy (vendorId options)
                       then conditions @ [''VendorRef = '' @ [CHR 0x27] @ the (vendorId options) @ [CHR 0x27]]
                       else conditions);
         conditions = (if status options = Some ''unpaid''
                       then conditions @ [''Balance > '0'' @ [CHR 0x27]]
                       else if status options = Some ''paid''
                       then conditions @ [''Balance = '0'' @ [CHR 0x27]]
                       else conditions)
     in conditions)"

definition queryBills_args :: "bill_options \<Rightarrow> query_args" where
  "queryBills_args options =
    (''Bill'', where_of (queryBills_conditions options),
     Some (or_default (limit options) 100), Some (or_default (offset options) 0))"

subsection \<open>Configuration, client state and the remote side\<close>

datatype environment = sandbox | production

record QBConfig =
  clientId :: string
  clientSecret :: string
  refreshToken :: string
  companyId :: string
  environment :: environment

record TokenResponse =
  access_token :: string
  refresh_token :: "string option"
  expires_in :: int

text \<open>
  The fields of the class. \<open>tokenExpiry\<close> is the \<open>Date\<close>, \<open>None\<close> when invalid;
  \<open>baseURL\<close> is the base URL given to \<open>axios.create\<close>.
\<close>

record QuickBooksClient =
  config :: QBConfig
  accessToken :: string
  tokenExpiry :: "int option"
  baseURL :: string

text \<open>The body \<open>invoiceData\<close> that \<open>createInvoice\<close> posts.\<close>

record SalesItemLineDetail =
  Qty :: real
  UnitPrice :: real

record Line =
  Id' :: string
  Amount :: real
  DetailType :: string
  Description :: string
  SalesItemLineDetail :: SalesItemLineDetail

record invoiceData =
  CustomerRef :: string
  Line :: "Line list"
  DueDate :: "string option"
  CustomerMemo :: "string option"

text \<open>
  An HTTP request as it leaves the client. The token request carries the credentials
  \<open>clientId:clientSecret\<close> of its Basic header before base64 and the two form fields
  before URL encoding; an API request carries its \<open>Authorization\<close> header.
\<close>

datatype request =
    TokenPost string string string string
  | Get string "(string \<times> string) list" string
  | Post string invoiceData string

datatype error = AxiosError string | TypeError

text \<open>
  The report format of the remote platform: rows with an optional \<open>type\<close>, \<open>group\<close>
  and \<open>Summary\<close>, whose \<open>ColData\<close> entries have an optional string \<open>value\<close>.
\<close>

record ColDataEntry =
  value' :: "string option"

record Summary =
  ColData :: "ColDataEntry list option"

record Row =
  type :: "string option"
  group :: "string option"
  Summary :: "Summary option"

record Rows =
  Row :: "Row list option"

text \<open>
  \<open>response.data\<close> with the members the client reads; the entity records \<open>'e\<close> are
  passed through unread.
\<close>

record 'e response_data =
  QueryResponse :: "(string \<times> 'e list) list option"
  Customer :: "'e option"
  Invoice :: "'e option"
  Rows :: "Rows option"

text \<open>
  What a call meets outside the client: the clock reading \<open>now\<close> of \<open>new Date()\<close>
  when the cached token is tested, the reading \<open>issued\<close> of \<open>Date.now()\<close> once the
  token response is there, the authorization server and the accounting API.
\<close>

record 'e remote =
  now :: int
  issued :: int
  oauth :: "request \<Rightarrow> error + TokenResponse"
  api :: "request \<Rightarrow> error + 'e response_data"

type_synonym 'a outcome = "(error + 'a) \<times> QuickBooksClient \<times> request list"

subsection \<open>Token management\<close>

definition QuickBooksClient :: "QBConfig \<Rightarrow> QuickBooksClient" where
  "QuickBooksClient cfg =
    \<lparr>config = cfg, accessToken = [], tokenExpiry = new_Date 0,
     baseURL = (if environment cfg = production
                then ''https://quickbooks.api.intuit.com''
                else ''https://sandbox-quickbooks.api.intuit.com'')
               @ ''/v3/company/'' @ companyId cfg\<rparr>"

definition token_request :: "QuickBooksClient \<Rightarrow> request" where
  "token_request c =
    TokenPost ''https://oauth.platform.intuit.com/oauth2/v1/tokens/bearer''
      (clientId (config c) @ '':'' @ clientSecret (config c))
      ''refresh_token'' (refreshToken (config c))"

definition getAccessToken :: "'e remote \<Rightarrow> QuickBooksClient \<Rightarrow> string outcome" where
  "getAccessToken E c =
    (if accessToken c \<noteq> [] \<and> later (tokenExpiry c) (now E) then (Inr (accessToken c), c, [])
     else
       (let req = token_request c in
        case oauth E req of
          Inl e \<Rightarrow> (Inl e, c, [req])
        | Inr response \<Rightarrow>
            (let c = c\<lparr>accessToken := access_token response\<rparr>;
                 c = c\<lparr>tokenExpiry :=
                        new_Date (round_double (issued E
                          + round_double (round_double (expires_in response - 60) * 1000)))\<rparr>;
                 c = (if truthy (refresh_token response)
                      then c\<lparr>config := (config c)\<lparr>refreshToken := the (refresh_token response)\<rparr>\<rparr>
                      else c)
             in (Inr (accessToken c), c, [req]))))"

subsection \<open>Authenticated requests\<close>

text \<open>
  A request through \<open>this.api\<close>: the interceptor obtains the token and sets the
  \<open>Authorization\<close> header, then the request is sent.
\<close>

definition api_request :: "'e remote \<Rightarrow> QuickBooksClient \<Rightarrow> (string \<Rightarrow> request) \<Rightarrow> 'e response_data outcome" where
  "api_request E c mk =
    (case getAccessToken E c of
       (Inl e, c', sent) \<Rightarrow> (Inl e, c', sent)
     | (Inr token, c', sent) \<Rightarrow>
         (let req = mk (''Bearer '' @ token) in (api E req, c', sent @ [req])))"

definition api_get :: "'e remote \<Rightarrow> QuickBooksClient \<Rightarrow> string \<Rightarrow> (string \<times> string) list \<Rightarrow> 'e response_data outcome" where
  "api_get E c path params = api_request E c (Get (baseURL c @ path) params)"

definition api_post :: "'e remote \<Rightarrow> QuickBooksClient \<Rightarrow> string \<Rightarrow> invoiceData \<Rightarrow> 'e response_data outcome" where
  "api_post E c path body = api_request E c (Post (baseURL c @ path) body)"

subsection \<open>Entity operations\<close>

definition query :: "'e remote \<Rightarrow> QuickBooksClient \<Rightarrow> query_args \<Rightarrow> 'e list outcome" where
  "query E c args =
    (let entityType = fst args; sql = query_sql args in
     case api_get E c ''/query'' [(''query'', sql)] of
       (Inl e, c', sent) \<Rightarrow> (Inl e, c', sent)
     | (Inr response, c', sent) \<Rightarrow>
         (case QueryResponse response of
            None \<Rightarrow> (Inl TypeError, c', sent)
          | Some data \<Rightarrow>
              (Inr (case map_of data entityType of None \<Rightarrow> [] | Some xs \<Rightarrow> xs), c', sent)))"

definition queryCustomers :: "'e remote \<Rightarrow> QuickBooksClient \<Rightarrow> customer_options \<Rightarrow> 'e list outcome" where
  "queryCustomers E c options = query E c (queryCustomers_args options)"

definition queryInvoices :: "'e remote \<Rightarrow> QuickBooksClient \<Rightarrow> invoice_options \<Rightarrow> 'e list outcome" where
  "queryInvoices E c options = query E c (queryInvoices_args options)"

definition queryAccounts :: "'e remote \<Rightarrow> QuickBooksClient \<Rightarrow> account_options \<Rightarrow> 'e list outcome" where
  "queryAccounts E c options = query E c (queryAccounts_args options)"

definition queryVendors :: "'e remote \<Rightarrow> QuickBooksClient \<Rightarrow> vendor_options \<Rightarrow> 'e list outcome" where
  "queryVendors E c options = query E c (queryVendors_args options)"

definition queryBills :: "'e remote \<Rightarrow> QuickBooksClient \<Rightarrow> bill_options \<Rightarrow> 'e list outcome" where
  "queryBills E c options = query E c (queryBills_args options)"

text \<open>\<open>getCustomer\<close>: the whole body is inside \<open>try\<close>; \<open>None\<close> is \<open>null\<close>.\<close>

definition getCustomer :: "'e remote \<Rightarrow> QuickBooksClient \<Rightarrow> string \<Rightarrow> 'e option outcome" where
  "getCustomer E c i =
    (case api_get E c (''/customer/'' @ i) [] of
       (Inl e, c', sent) \<Rightarrow> (Inr None, c', sent)
     | (Inr response, c', sent) \<Rightarrow> (Inr (Customer response), c', sent))"

subsection \<open>Invoice creation\<close>

record lineItem =
  description :: string
  amount :: real
  quantity :: "real option"

record createInvoice_data =
  customerId' :: string
  lineItems :: "lineItem list"
  dueDate :: "string option"
  memo :: "string option"

text \<open>\<open>item.quantity || 1\<close>.\<close>

fun or_one :: "real option \<Rightarrow> real" where
  "or_one None = 1"
| "or_one (Some q) = (if q = 0 then 1 else q)"

text \<open>
  The callback of \<open>lineItems.map\<close>, and the object \<open>invoiceData\<close>. An array index
  is below \<open>2^32\<close>, so \<open>idx + 1\<close> is exact.
\<close>

definition sales_line :: "lineItem \<Rightarrow> nat \<Rightarrow> Line" where
  "sales_line item idx =
    \<lparr>Id' = ToString (int idx + 1),
     Amount = amount item * or_one (quantity item),
     DetailType = ''SalesItemLineDetail'',
     Description = description item,
     SalesItemLineDetail = \<lparr>Qty = or_one (quantity item), UnitPrice = amount item\<rparr>\<rparr>"

definition createInvoice_invoiceData :: "createInvoice_data \<Rightarrow> invoiceData" where
  "createInvoice_invoiceData data =
    \<lparr>CustomerRef = customerId' data,
     Line = map (\<lambda>(idx, item). sales_line item idx) (enumerate 0 (lineItems data)),
     DueDate = (if truthy (dueDate data) then dueDate data else None),
     CustomerMemo = (if truthy (memo data) then memo data else None)\<rparr>"

definition createInvoice :: "'e remote \<Rightarrow> QuickBooksClient \<Rightarrow> createInvoice_data \<Rightarrow> 'e option outcome" where
  "createInvoice E c data =
    (case api_post E c ''/invoice'' (createInvoice_invoiceData data) of
       (Inl e, c', sent) \<Rightarrow> (Inl e, c', sent)
     | (Inr response, c', sent) \<Rightarrow> (Inr (Invoice response), c', sent))"

subsection \<open>Profit and loss report\<close>

text \<open>
  A JavaScript number as \<open>parseFloat\<close> can return it: not a number, an infinity or a
  finite value.
\<close>

datatype number = NaN | Infinity | NegInfinity | Num real

fun negate :: "number \<Rightarrow> number" where
  "negate NaN = NaN"
| "negate Infinity = NegInfinity"
| "negate NegInfinity = Infinity"
| "negate (Num x) = Num (- x)"

definition is_digit :: "char \<Rightarrow> bool" where
  "is_digit ch = (ch \<in> set ''0123456789'')"

definition decimal :: "string \<Rightarrow> nat" where
  "decimal ds = foldl (\<lambda>a ch. 10 * a + (of_char ch - 48)) 0 ds"

definition StrWhiteSpaceChar :: "char \<Rightarrow> bool" where
  "StrWhiteSpaceChar ch =
    (ch \<in> set [CHR 0x09, CHR 0x0A, CHR 0x0B, CHR 0x0C, CHR 0x0D, CHR 0x20, CHR 0xA0])"

text \<open>
  The value of the longest prefix that is a \<open>StrUnsignedDecimalLiteral\<close>:
  \<open>Infinity\<close>, digits with an optional fraction and exponent, or a fraction with an
  optional exponent; an exponent counts only when it has a digit.
\<close>

definition exponent_part :: "string \<Rightarrow> (bool \<times> nat) option" where
  "exponent_part s =
    (case s of
       [] \<Rightarrow> None
     | e # r \<Rightarrow>
         (if e = CHR ''e'' \<or> e = CHR ''E'' then
            (let neg = (case r of [] \<Rightarrow> False | sg # _ \<Rightarrow> sg = CHR ''-'');
                 r' = (case r of [] \<Rightarrow> []
                       | sg # t \<Rightarrow> if sg = CHR ''+'' \<or> sg = CHR ''-'' then t else r);
                 ed = takeWhile is_digit r'
             in if ed = [] then None else Some (neg, decimal ed))
          else None))"

definition unsigned_literal :: "string \<Rightarrow> number" where
  "unsigned_literal s =
    (if prefix ''Infinity'' s then Infinity
     else
       (let ip = takeWhile is_digit s;
            r = dropWhile is_digit s;
            dot = (case r of [] \<Rightarrow> False | d # _ \<Rightarrow> d = CHR ''.'');
            fp = (if dot then takeWhile is_digit (tl r) else []);
            r' = (if dot then dropWhile is_digit (tl r) else r)
        in if ip = [] \<and> fp = [] then NaN
           else
             (let m = real (decimal ip) + real (decimal fp) / 10 ^ length fp
              in case exponent_part r' of
                   None \<Rightarrow> Num m
                 | Some (neg, k) \<Rightarrow> Num (if neg then m / 10 ^ k else m * 10 ^ k))))"

definition parseFloat :: "string \<Rightarrow> number" where
  "parseFloat s =
    (case dropWhile StrWhiteSpaceChar s of
       [] \<Rightarrow> NaN
     | sg # r \<Rightarrow>
         (if sg = CHR ''-'' then negate (unsigned_literal r)
          else if sg = CHR ''+'' then unsigned_literal r
          else unsigned_literal (sg # r)))"

text \<open>\<open>x || 0\<close> on a number: \<open>NaN\<close> and zero are falsy.\<close>

definition or_zero :: "number \<Rightarrow> number" where
  "or_zero x = (if x = NaN \<or> x = Num 0 then Num 0 else x)"

record ProfitLossReport =
  totalIncome :: number
  totalCOGS :: number
  grossProfit :: number
  totalExpenses :: number
  netIncome :: number

text \<open>\<open>row?.Summary?.ColData?.[1]?.value\<close>, for the row found (if any).\<close>

definition summary_value :: "Row option \<Rightarrow> string option" where
  "summary_value row =
    (case row of
       None \<Rightarrow> None
     | Some r \<Rightarrow>
         (case Summary r of
            None \<Rightarrow> None
          | Some s \<Rightarrow>
              (case ColData s of
                 None \<Rightarrow> None
               | Some cd \<Rightarrow> (if 1 < length cd then value' (cd ! 1) else None))))"

text \<open>
  The local function \<open>parseAmount\<close>; its argument \<open>rows\<close> is always an array, so the
  test \<open>!rows\<close> never holds.
\<close>

definition parseAmount :: "Row list \<Rightarrow> string \<Rightarrow> number" where
  "parseAmount rows t =
    (let row = find (\<lambda>r. type r = Some t \<or> group r = Some t) rows in
     if truthy (summary_value row) then or_zero (parseFloat (the (summary_value row)))
     else Num 0)"

text \<open>The parsing step of \<open>getProfitAndLossReport\<close>, on \<open>response.data\<close>.\<close>

definition parseProfitAndLoss :: "'e response_data \<Rightarrow> ProfitLossReport" where
  "parseProfitAndLoss report =
    (let rows = (case Rows report of
                   None \<Rightarrow> []
                 | Some R \<Rightarrow> (case Row R of None \<Rightarrow> [] | Some rs \<Rightarrow> rs))
     in \<lparr>totalIncome = parseAmount rows ''Income'',
         totalCOGS = parseAmount rows ''COGS'',
         grossProfit = parseAmount rows ''GrossProfit'',
         totalExpenses = parseAmount rows ''Expenses'',
         netIncome = parseAmount rows ''NetIncome''\<rparr>)"

definition getProfitAndLossReport :: "'e remote \<Rightarrow> QuickBooksClient \<Rightarrow> string \<Rightarrow> string \<Rightarrow> ProfitLossReport outcome" where
  "getProfitAndLossReport E c startDate' endDate' =
    (case api_get E c ''/reports/ProfitAndLoss''
            [(''start_date'', startDate'), (''end_date'', endDate')] of
       (Inl e, c', sent) \<Rightarrow> (Inl e, c', sent)
     | (Inr response, c', sent) \<Rightarrow> (Inr (parseProfitAndLoss response), c', sent))"

subsection \<open>The query shape as the specification words it\<close>

text \<open>
  \<open>SELECT * FROM <Entity>\<close>, then \<open>WHERE\<close> and the conditions joined with \<open>AND\<close>
  when there is at least one, then \<open>STARTPOSITION <offset+1> MAXRESULTS <limit>\<close>.
\<close>

definition spec_query :: "string \<Rightarrow> string list \<Rightarrow> int \<Rightarrow> int \<Rightarrow> string" where
  "spec_query entity conditions L K =
    ''SELECT * FROM '' @ entity
    @ (if conditions = [] then [] else '' WHERE '' @ join '' AND '' conditions)
    @ '' STARTPOSITION '' @ show_int (K + 1) @ '' MAXRESULTS '' @ show_int L"

subsection \<open>The report totals as the specification words them\<close>

text \<open>The rows of a raw report response: \<open>Rows.Row\<close>, none when either is absent.\<close>

definition report_rows :: "'e response_data \<Rightarrow> Row list" where
  "report_rows report =
    (case Rows report of
       None \<Rightarrow> []
     | Some R \<Rightarrow> (case Row R of None \<Rightarrow> [] | Some rs \<Rightarrow> rs))"

text \<open>
  The first row whose \<open>type\<close> or \<open>group\<close> is the discriminator, the value of the second
  column of its summary, parsed as a floating-point number; zero when the row, the
  summary, the column or its value is absent, or the value does not parse.
\<close>

definition spec_amount :: "Row list \<Rightarrow> string \<Rightarrow> number" where
  "spec_amount rows d =
    (case find (\<lambda>r. type r = Some d \<or> group r = Some d) rows of
       None \<Rightarrow> Num 0
     | Some r \<Rightarrow>
         (case Summary r of
            None \<Rightarrow> Num 0
          | Some s \<Rightarrow>
              (case ColData s of
                 None \<Rightarrow> Num 0
               | Some cd \<Rightarrow>
                   (case drop 1 cd of
                      [] \<Rightarrow> Num 0
                    | col # _ \<Rightarrow>
                        (case value' col of
                           None \<Rightarrow> Num 0
                         | Some v \<Rightarrow> (case parseFloat v of NaN \<Rightarrow> Num 0 | x \<Rightarrow> x))))))"

subsection \<open>Concrete inputs\<close>

text \<open>
  A report with an \<open>Income\<close> group whose summary reads \<open>10000.00\<close>, an \<open>Expenses\<close>
  group whose summary does not parse, a \<open>NetIncome\<close> row with a one-column summary,
  and no other group.
\<close>

definition example_report :: "unit response_data" where
  "example_report =
    \<lparr>QueryResponse = None, Customer = None, Invoice = None,
     Rows = Some \<lparr>Row = Some
       [\<lparr>type = Some ''Section'', group = Some ''Income'',
         Summary = Some \<lparr>ColData = Some [\<lparr>value' = Some ''Total Income''\<rparr>,
                                         \<lparr>value' = Some ''10000.00''\<rparr>]\<rparr>\<rparr>,
        \<lparr>type = Some ''Section'', group = Some ''Expenses'',
         Summary = Some \<lparr>ColData = Some [\<lparr>value' = Some ''Total Expenses''\<rparr>,
                                         \<lparr>value' = Some ''n/a''\<rparr>]\<rparr>\<rparr>,
        \<lparr>type = Some ''Section'', group = Some ''NetIncome'',
         Summary = Some \<lparr>ColData = Some [\<lparr>value' = Some ''Net Income''\<rparr>]\<rparr>\<rparr>]\<rparr>\<rparr>"

text \<open>An invoice with one line of quantity 2, one of quantity 0 and one without.\<close>

definition example_invoice :: createInvoice_data where
  "example_invoice =
    \<lparr>customerId' = ''123'',
     lineItems = [\<lparr>description = ''House Cleaning'', amount = 150, quantity = Some 2\<rparr>,
                  \<lparr>description = ''Window Washing'', amount = 75, quantity = Some 0\<rparr>,
                  \<lparr>description = ''Deep Carpet Clean'', amount = 200, quantity = None\<rparr>],
     dueDate = Some ''2024-12-31'', memo = None\<rparr>"

subsection \<open>Failure of a request, and the frame of the configuration\<close>

text \<open>
  The remote request of an operation fails with \<open>e\<close>: the token step fails with \<open>e\<close>,
  or it gives a token and the API answers the request that carries it with the error
  \<open>e\<close>.
\<close>

definition request_fails :: "'e remote \<Rightarrow> QuickBooksClient \<Rightarrow> (string \<Rightarrow> request) \<Rightarrow> error \<Rightarrow> bool" where
  "request_fails E c mk e =
    (case getAccessToken E c of
       (Inl e', c', sent) \<Rightarrow> e' = e
     | (Inr t, c', sent) \<Rightarrow> api E (mk (''Bearer '' @ t)) = Inl e)"

text \<open>
  In state \<open>c\<close> a token refresh takes place against \<open>E\<close>, succeeds and returns the
  non-empty refresh token \<open>r\<close>.
\<close>

definition rotated :: "'e remote \<Rightarrow> QuickBooksClient \<Rightarrow> string \<Rightarrow> bool" where
  "rotated E c r =
    (\<not> (accessToken c \<noteq> [] \<and> later (tokenExpiry c) (now E))
     \<and> (case oauth E (token_request c) of
          Inl e \<Rightarrow> False
        | Inr response \<Rightarrow> refresh_token response = Some r \<and> r \<noteq> []))"

text \<open>
  From \<open>c\<close> to \<open>c'\<close> the configuration keeps its client id, client secret, company id
  and environment, and its refresh token is the old one or one rotated in.
\<close>

definition config_frame :: "'e remote \<Rightarrow> QuickBooksClient \<Rightarrow> QuickBooksClient \<Rightarrow> bool" where
  "config_frame E c c' =
    (clientId (config c') = clientId (config c)
     \<and> clientSecret (config c') = clientSecret (config c)
     \<and> companyId (config c') = companyId (config c)
     \<and> environment (config c') = environment (config c)
     \<and> (refreshToken (config c') = refreshToken (config c)
        \<or> rotated E c (refreshToken (config c'))))"

subsection \<open>Concrete clients and remotes\<close>

definition example_config :: QBConfig where
  "example_config =
    \<lparr>clientId = ''client'', clientSecret = ''secret'', refreshToken = ''old'',
     companyId = ''9341'', environment = sandbox\<rparr>"

text \<open>
  A remote whose authorization server answers \<open>{access_token: "abc", refresh_token:
  "xyz", expires_in: 3600}\<close> and whose API fails every request.
\<close>

definition example_remote :: "unit remote" where
  "example_remote =
    \<lparr>now = 1000, issued = 2000,
     oauth = (\<lambda>req. Inr \<lparr>access_token = ''abc'', refresh_token = Some ''xyz'', expires_in = 3600\<rparr>),
     api = (\<lambda>req. Inl (AxiosError ''Request failed with status code 500''))\<rparr>"

text \<open>The same remote an hour later, its authorization server now out of order.\<close>

definition later_remote :: "unit remote" where
  "later_remote =
    \<lparr>now = 3541999, issued = 3541999,
     oauth = (\<lambda>req. Inl (AxiosError ''Network Error'')),
     api = (\<lambda>req. Inl (AxiosError ''Request failed with status code 500''))\<rparr>"

definition after_refresh :: QuickBooksClient where
  "after_refresh = fst (snd (getAccessToken example_remote (QuickBooksClient example_config)))"

text \<open>
  A remote whose authorization server answers \<open>{access_token: "abc", refresh_token:
  "xyz", expires_in: 10000000000000000}\<close>.
\<close>

definition long_lifetime_remote :: "unit remote" where
  "long_lifetime_remote =
    \<lparr>now = 1000, issued = 2000,
     oauth = (\<lambda>req. Inr \<lparr>access_token = ''abc'', refresh_token = Some ''xyz'',
                            expires_in = 10000000000000000\<rparr>),
     api = (\<lambda>req. Inl (AxiosError ''Request failed with status code 500''))\<rparr>"

definition after_long_lifetime :: QuickBooksClient where
  "after_long_lifetime =
    fst (snd (getAccessToken long_lifetime_remote (QuickBooksClient example_config)))"

section \<open>Properties\<close>

subsection \<open>Helper facts\<close>

text \<open>Below \<open>2^53\<close> nothing is rounded and a number is printed as its numeral.\<close>

lemma round_double_safe: "\<bar>x\<bar> < 2 ^ 53 \<Longrightarrow> round_double x = x"
proof -
  assume "\<bar>x\<bar> < 2 ^ 53"
  then have "halvings \<bar>x\<bar> = 0"
    by (simp add: halvings.simps)
  then show ?thesis
    by (simp add: round_double_def Let_def mult_sgn_abs)
qed

lemma ToString_safe: "\<bar>x\<bar> < 2 ^ 53 \<Longrightarrow> ToString x = show_int x"
proof -
  assume "\<bar>x\<bar> < 2 ^ 53"
  then have "x \<le> 2 ^ 53" and "- x \<le> 2 ^ 53"
    by simp_all
  then show ?thesis
    by (simp only: ToString_def ToString_unsigned_def show_int_def if_True)
qed

text \<open>Up to \<open>2^54\<close> the even integers are doubles.\<close>

lemma round_double_even:
  assumes "\<bar>x\<bar> < 2 ^ 54" and "even x"
  shows "round_double x = x"
proof (cases "\<bar>x\<bar> < 2 ^ 53")
  case True
  then show ?thesis
    by (rule round_double_safe)
next
  case False
  from assms(1) have "\<bar>x\<bar> div 2 < 2 ^ 53"
    by simp
  then have "halvings (\<bar>x\<bar> div 2) = 0"
    by (simp add: halvings.simps)
  with False have h: "halvings \<bar>x\<bar> = Suc 0"
    by (subst halvings.simps) simp
  from assms(2) have m: "\<bar>x\<bar> mod 2 = 0" and "\<bar>x\<bar> div 2 * 2 = \<bar>x\<bar>"
    by simp_all
  then have "sgn x * (\<bar>x\<bar> div 2 * 2) = x"
    by (simp only: mult_sgn_abs)
  with m show ?thesis
    by (simp add: round_double_def Let_def h)
qed

text \<open>Above \<open>2^53\<close>: a sum that is rounded, and numbers printed with fewer digits.\<close>

lemma round_double_tie: "round_double (9007199254740992 + 1) = 9007199254740992"
  by code_simp

lemma ToString_large:
  "ToString 9223372036854775808 = ''9223372036854776000''
   \<and> ToString 1000000000000000000000 = ''1e+21''"
  by code_simp

lemma show_int_1: "show_int 1 = ''1''"
  by (simp add: show_int_def digits.simps)

lemma ToString_1: "ToString 1 = ''1''"
  by (simp add: ToString_safe show_int_1)

lemma ToString_10: "ToString 10 = ''10''"
  by code_simp

lemma ToString_100: "ToString 100 = ''100''"
  by code_simp

lemma ToString_1000: "ToString 1000 = ''1000''"
  by code_simp

lemma round_double_1: "round_double 1 = 1"
  by (simp add: round_double_safe)

lemma join_nonempty: "xs \<noteq> [] \<Longrightarrow> hd xs \<noteq> [] \<Longrightarrow> join sep xs \<noteq> []"
  by (induction sep xs rule: join.induct) auto

lemma query_sql_where_of:
  "conds = [] \<or> hd conds \<noteq> [] \<Longrightarrow> \<bar>L\<bar> < 2 ^ 53 \<Longrightarrow> \<bar>K + 1\<bar> < 2 ^ 53 \<Longrightarrow>
   query_sql (entity, where_of conds, Some L, Some K) = spec_query entity conds L K"
  by (auto simp: where_of_def spec_query_def join_nonempty round_double_safe ToString_safe)

lemma queryCustomers_conditions_hd:
  "queryCustomers_conditions opts = [] \<or> hd (queryCustomers_conditions opts) \<noteq> []"
  by (simp add: queryCustomers_conditions_def)

lemma queryVendors_conditions_hd:
  "queryVendors_conditions opts = [] \<or> hd (queryVendors_conditions opts) \<noteq> []"
  by (simp add: queryVendors_conditions_def)

lemma queryInvoices_conditions_hd:
  "queryInvoices_conditions opts = [] \<or> hd (queryInvoices_conditions opts) \<noteq> []"
  by (simp add: queryInvoices_conditions_def)

lemma queryBills_conditions_hd:
  "queryBills_conditions opts = [] \<or> hd (queryBills_conditions opts) \<noteq> []"
  by (simp add: queryBills_conditions_def)

lemma queryAccounts_conditions_hd:
  "queryAccounts_conditions opts \<noteq> [] \<and> hd (queryAccounts_conditions opts) \<noteq> []"
  by (simp add: queryAccounts_conditions_def Let_def)

lemma queryAccounts_where:
  "Some (join '' AND '' (queryAccounts_conditions opts)) = where_of (queryAccounts_conditions opts)"
  using queryAccounts_conditions_hd [of opts] by (simp add: where_of_def)

text \<open>The requests a \<open>query\<close> sends: those of the token step, then the one \<open>GET\<close>.\<close>

lemma query_sent:
  "snd (snd (query E c args)) =
    (case getAccessToken E c of
       (Inl e, c', sent) \<Rightarrow> sent
     | (Inr t, c', sent) \<Rightarrow>
         sent @ [Get (baseURL c @ ''/query'') [(''query'', query_sql args)] (''Bearer '' @ t)])"
  by (simp add: query_def api_get_def api_request_def Let_def
           split: prod.splits sum.splits option.splits)

subsection \<open>Query construction\<close>

text \<open>
  C2. In \<open>queryInvoices\<close> the status \<open>open\<close> contributes exactly the condition
  \<open>Balance > '0'\<close>, \<open>paid\<close> exactly \<open>Balance = '0'\<close>, and \<open>overdue\<close> and \<open>all\<close>
  contribute nothing: the conditions are the customer condition, the status condition
  and the two date conditions, in this order. For the options
  \<open>{customerId: "123", status: "open", limit: 10, offset: 0}\<close> the query string is
  \<open>SELECT * FROM Invoice WHERE CustomerRef = '123' AND Balance > '0' STARTPOSITION 1 MAXRESULTS 10\<close>,
  and it is the \<open>query\<close> parameter of the one \<open>GET /query\<close> sent once the token step
  has given a token.
\<close>

theorem queryInvoices_status_predicates:
  "queryInvoices_conditions options =
      (if truthy (customerId options)
       then [''CustomerRef = '' @ [CHR 0x27] @ the (customerId options) @ [CHR 0x27]] else [])
      @ (if status options = Some ''open'' then [''Balance > '0'' @ [CHR 0x27]]
         else if status options = Some ''paid'' then [''Balance = '0'' @ [CHR 0x27]]
         else [])
      @ (if truthy (startDate options)
         then [''TxnDate >= '' @ [CHR 0x27] @ the (startDate options) @ [CHR 0x27]] else [])
      @ (if truthy (endDate options)
         then [''TxnDate <= '' @ [CHR 0x27] @ the (endDate options) @ [CHR 0x27]] else [])
   \<and> queryInvoices_conditions (options\<lparr>status := Some ''overdue''\<rparr>)
       = queryInvoices_conditions (options\<lparr>status := None\<rparr>)
   \<and> queryInvoices_conditions (options\<lparr>status := Some ''all''\<rparr>)
       = queryInvoices_conditions (options\<lparr>status := None\<rparr>)
   \<and> query_sql (queryInvoices_args
         \<lparr>limit = Some 10, offset = Some 0, status = Some ''open'',
          customerId = Some ''123'', startDate = None, endDate = None\<rparr>)
       = ''SELECT * FROM Invoice WHERE CustomerRef = '123' AND Balance > '0' STARTPOSITION 1 MAXRESULTS 10''
   \<and> snd (snd (queryInvoices E c
         \<lparr>limit = Some 10, offset = Some 0, status = Some ''open'',
          customerId = Some ''123'', startDate = None, endDate = None\<rparr>))
       = (case getAccessToken E c of
            (Inl e, c', sent) \<Rightarrow> sent
          | (Inr t, c', sent) \<Rightarrow>
              sent @ [Get (baseURL c @ ''/query'')
                        [(''query'', ''SELECT * FROM Invoice WHERE CustomerRef = '123' AND Balance > '0' STARTPOSITION 1 MAXRESULTS 10'')]
                        (''Bearer '' @ t)])"
proof -
  let ?ex = "\<lparr>limit = Some 10, offset = Some 0, status = Some ''open'',
              customerId = Some ''123'', startDate = None, endDate = None\<rparr>"
  have sql: "query_sql (queryInvoices_args ?ex)
       = ''SELECT * FROM Invoice WHERE CustomerRef = '123' AND Balance > '0' STARTPOSITION 1 MAXRESULTS 10''"
    by (simp add: queryInvoices_args_def queryInvoices_conditions_def where_of_def
          round_double_1 ToString_1 ToString_10)
  have sent: "snd (snd (queryInvoices E c ?ex))
       = (case getAccessToken E c of
            (Inl e, c', sent) \<Rightarrow> sent
          | (Inr t, c', sent) \<Rightarrow>
              sent @ [Get (baseURL c @ ''/query'')
                        [(''query'', ''SELECT * FROM Invoice WHERE CustomerRef = '123' AND Balance > '0' STARTPOSITION 1 MAXRESULTS 10'')]
                        (''Bearer '' @ t)])"
    unfolding queryInvoices_def query_sent sql ..
  have conds: "queryInvoices_conditions options =
      (if truthy (customerId options)
       then [''CustomerRef = '' @ [CHR 0x27] @ the (customerId options) @ [CHR 0x27]] else [])
      @ (if status options = Some ''open'' then [''Balance > '0'' @ [CHR 0x27]]
         else if status options = Some ''paid'' then [''Balance = '0'' @ [CHR 0x27]]
         else [])
      @ (if truthy (startDate options)
         then [''TxnDate >= '' @ [CHR 0x27] @ the (startDate options) @ [CHR 0x27]] else [])
      @ (if truthy (endDate options)
         then [''TxnDate <= '' @ [CHR 0x27] @ the (endDate options) @ [CHR 0x27]] else [])"
    by (simp add: queryInvoices_conditions_def)
  have overdue: "queryInvoices_conditions (options\<lparr>status := Some ''overdue''\<rparr>)
       = queryInvoices_conditions (options\<lparr>status := None\<rparr>)"
    by (simp add: queryInvoices_conditions_def)
  have all: "queryInvoices_conditions (options\<lparr>status := Some ''all''\<rparr>)
       = queryInvoices_conditions (options\<lparr>status := None\<rparr>)"
    by (simp add: queryInvoices_conditions_def)
  from conds overdue all sql sent show ?thesis by blast
qed

text \<open>
  C5. The conditions of \<open>queryCustomers\<close> are \<open>Active = true\<close> unless \<open>activeOnly\<close> is
  \<open>false\<close>, then, for a non-empty search term \<open>T\<close>, \<open>DisplayName LIKE '%T%'\<close> with
  \<open>T\<close> copied unchanged; those of \<open>queryVendors\<close> are \<open>Active = true\<close> unless
  \<open>activeOnly\<close> is \<open>false\<close>. The term \<open>O'Brien\<close>, with its quote, goes into the
  query as it is.
\<close>

theorem queryCustomers_queryVendors_conditions:
  "queryCustomers_conditions options =
      (if activeOnly options = Some False then [] else [''Active = true''])
      @ (case search options of
           None \<Rightarrow> []
         | Some T \<Rightarrow> if T = [] then [] else [''DisplayName LIKE '%'' @ T @ ''%'' @ [CHR 0x27]])
   \<and> queryVendors_conditions voptions =
      (if activeOnly voptions = Some False then [] else [''Active = true''])
   \<and> query_sql (queryCustomers_args
         \<lparr>limit = None, offset = None, activeOnly = None, search = Some ''O'Brien''\<rparr>)
       = ''SELECT * FROM Customer WHERE Active = true AND DisplayName LIKE '%O'Brien%' STARTPOSITION 1 MAXRESULTS 100''"
proof -
  have "queryCustomers_conditions options =
      (if activeOnly options = Some False then [] else [''Active = true''])
      @ (case search options of
           None \<Rightarrow> []
         | Some T \<Rightarrow> if T = [] then [] else [''DisplayName LIKE '%'' @ T @ ''%'' @ [CHR 0x27]])"
    by (simp add: queryCustomers_conditions_def split: option.splits)
  moreover have "queryVendors_conditions voptions =
      (if activeOnly voptions = Some False then [] else [''Active = true''])"
    by (simp add: queryVendors_conditions_def)
  moreover have "query_sql (queryCustomers_args
         \<lparr>limit = None, offset = None, activeOnly = None, search = Some ''O'Brien''\<rparr>)
       = ''SELECT * FROM Customer WHERE Active = true AND DisplayName LIKE '%O'Brien%' STARTPOSITION 1 MAXRESULTS 100''"
    by (simp add: queryCustomers_args_def queryCustomers_conditions_def where_of_def
          round_double_1 ToString_1 ToString_100)
  ultimately show ?thesis by blast
qed

text \<open>
  C3, as amended. With \<open>limit\<close> and \<open>offset\<close> unset, \<open>queryCustomers\<close>,
  \<open>queryInvoices\<close>, \<open>queryVendors\<close> and \<open>queryBills\<close> pass limit 100 and offset 0
  to \<open>query\<close> and their query string ends with \<open>STARTPOSITION 1 MAXRESULTS 100\<close>;
  \<open>queryAccounts\<close> passes limit 1000 and offset 0 and its query string ends with
  \<open>STARTPOSITION 1 MAXRESULTS 1000\<close>.
\<close>

theorem list_operations_default_pagination:
  "snd (snd (queryCustomers_args (co\<lparr>limit := None, offset := None\<rparr>))) = (Some 100, Some 0)
   \<and> suffix '' STARTPOSITION 1 MAXRESULTS 100''
        (query_sql (queryCustomers_args (co\<lparr>limit := None, offset := None\<rparr>)))
   \<and> snd (snd (queryInvoices_args (io\<lparr>limit := None, offset := None\<rparr>))) = (Some 100, Some 0)
   \<and> suffix '' STARTPOSITION 1 MAXRESULTS 100''
        (query_sql (queryInvoices_args (io\<lparr>limit := None, offset := None\<rparr>)))
   \<and> snd (snd (queryVendors_args (vo\<lparr>limit := None, offset := None\<rparr>))) = (Some 100, Some 0)
   \<and> suffix '' STARTPOSITION 1 MAXRESULTS 100''
        (query_sql (queryVendors_args (vo\<lparr>limit := None, offset := None\<rparr>)))
   \<and> snd (snd (queryBills_args (bo\<lparr>limit := None, offset := None\<rparr>))) = (Some 100, Some 0)
   \<and> suffix '' STARTPOSITION 1 MAXRESULTS 100''
        (query_sql (queryBills_args (bo\<lparr>limit := None, offset := None\<rparr>)))
   \<and> snd (snd (queryAccounts_args (ao\<lparr>limit := None, offset := None\<rparr>))) = (Some 1000, Some 0)
   \<and> suffix '' STARTPOSITION 1 MAXRESULTS 1000''
        (query_sql (queryAccounts_args (ao\<lparr>limit := None, offset := None\<rparr>)))"
proof -
  have tail: "suffix ('' STARTPOSITION 1 MAXRESULTS '' @ ToString L) (query_sql (e, w, Some L, Some 0))"
    for e w L
  proof -
    have "query_sql (e, w, Some L, Some 0) =
        (''SELECT * FROM '' @ e @ (if truthy w then '' WHERE '' @ the w else []))
        @ ('' STARTPOSITION 1 MAXRESULTS '' @ ToString L)"
      by (simp add: round_double_1 ToString_1)
    then show ?thesis
      unfolding suffix_def by blast
  qed
  have "suffix '' STARTPOSITION 1 MAXRESULTS 100''
        (query_sql (queryCustomers_args (co\<lparr>limit := None, offset := None\<rparr>)))"
    using tail [of 100] by (simp add: queryCustomers_args_def ToString_100 del: query_sql.simps)
  moreover have "suffix '' STARTPOSITION 1 MAXRESULTS 100''
        (query_sql (queryInvoices_args (io\<lparr>limit := None, offset := None\<rparr>)))"
    using tail [of 100] by (simp add: queryInvoices_args_def ToString_100 del: query_sql.simps)
  moreover have "suffix '' STARTPOSITION 1 MAXRESULTS 100''
        (query_sql (queryVendors_args (vo\<lparr>limit := None, offset := None\<rparr>)))"
    using tail [of 100] by (simp add: queryVendors_args_def ToString_100 del: query_sql.simps)
  moreover have "suffix '' STARTPOSITION 1 MAXRESULTS 100''
        (query_sql (queryBills_args (bo\<lparr>limit := None, offset := None\<rparr>)))"
    using tail [of 100] by (simp add: queryBills_args_def ToString_100 del: query_sql.simps)
  moreover have "suffix '' STARTPOSITION 1 MAXRESULTS 1000''
        (query_sql (queryAccounts_args (ao\<lparr>limit := None, offset := None\<rparr>)))"
    using tail [of 1000] by (simp add: queryAccounts_args_def ToString_1000 del: query_sql.simps)
  moreover have "snd (snd (queryCustomers_args (co\<lparr>limit := None, offset := None\<rparr>))) = (Some 100, Some 0)"
    by (simp add: queryCustomers_args_def)
  moreover have "snd (snd (queryInvoices_args (io\<lparr>limit := None, offset := None\<rparr>))) = (Some 100, Some 0)"
    by (simp add: queryInvoices_args_def)
  moreover have "snd (snd (queryVendors_args (vo\<lparr>limit := None, offset := None\<rparr>))) = (Some 100, Some 0)"
    by (simp add: queryVendors_args_def)
  moreover have "snd (snd (queryBills_args (bo\<lparr>limit := None, offset := None\<rparr>))) = (Some 100, Some 0)"
    by (simp add: queryBills_args_def)
  moreover have "snd (snd (queryAccounts_args (ao\<lparr>limit := None, offset := None\<rparr>))) = (Some 1000, Some 0)"
    by (simp add: queryAccounts_args_def)
  ultimately show ?thesis by blast
qed

text \<open>
  C3 as stated fails for accounts: with nothing set, \<open>queryAccounts\<close> passes limit
  1000, and its query string does not end with \<open>STARTPOSITION 1 MAXRESULTS 100\<close>.
\<close>

theorem queryAccounts_default_limit_counterexample:
  "snd (snd (queryAccounts_args \<lparr>limit = None, offset = None, accountType = None\<rparr>))
     = (Some 1000, Some 0)
   \<and> query_sql (queryAccounts_args \<lparr>limit = None, offset = None, accountType = None\<rparr>)
     = ''SELECT * FROM Account WHERE Active = true STARTPOSITION 1 MAXRESULTS 1000''
   \<and> \<not> suffix '' STARTPOSITION 1 MAXRESULTS 100''
        (query_sql (queryAccounts_args \<lparr>limit = None, offset = None, accountType = None\<rparr>))"
proof -
  have sql: "query_sql (queryAccounts_args \<lparr>limit = None, offset = None, accountType = None\<rparr>)
     = ''SELECT * FROM Account WHERE Active = true STARTPOSITION 1 MAXRESULTS 1000''"
    by (simp add: queryAccounts_args_def queryAccounts_conditions_def round_double_1 ToString_1 ToString_1000)
  have "\<not> suffix '' STARTPOSITION 1 MAXRESULTS 100''
        (query_sql (queryAccounts_args \<lparr>limit = None, offset = None, accountType = None\<rparr>))"
    unfolding sql by (simp add: suffix_Cons)
  moreover have "snd (snd (queryAccounts_args \<lparr>limit = None, offset = None, accountType = None\<rparr>))
     = (Some 1000, Some 0)"
    by (simp add: queryAccounts_args_def)
  ultimately show ?thesis using sql by blast
qed

text \<open>
  C4, as amended. For a limit \<open>L\<close> other than zero and an offset \<open>K\<close>, with \<open>L\<close> and
  \<open>K + 1\<close> safe integers (of magnitude below \<open>2^53\<close>), the query string of each of the
  five list operations is the string the specification describes:
  \<open>SELECT * FROM <Entity>\<close>, the \<open>WHERE\<close> clause of the operation's conditions when
  there is one, and \<open>STARTPOSITION <K+1> MAXRESULTS <L>\<close>, the numbers in decimal.
\<close>

theorem list_operations_query_shape:
  assumes "L \<noteq> 0" and "\<bar>L\<bar> < 2 ^ 53" and "\<bar>K + 1\<bar> < 2 ^ 53"
  shows "query_sql (queryCustomers_args (co\<lparr>limit := Some L, offset := Some K\<rparr>))
           = spec_query ''Customer'' (queryCustomers_conditions co) L K
       \<and> query_sql (queryInvoices_args (io\<lparr>limit := Some L, offset := Some K\<rparr>))
           = spec_query ''Invoice'' (queryInvoices_conditions io) L K
       \<and> query_sql (queryAccounts_args (ao\<lparr>limit := Some L, offset := Some K\<rparr>))
           = spec_query ''Account'' (queryAccounts_conditions ao) L K
       \<and> query_sql (queryVendors_args (vo\<lparr>limit := Some L, offset := Some K\<rparr>))
           = spec_query ''Vendor'' (queryVendors_conditions vo) L K
       \<and> query_sql (queryBills_args (bo\<lparr>limit := Some L, offset := Some K\<rparr>))
           = spec_query ''Bill'' (queryBills_conditions bo) L K"
proof -
  have c1: "queryCustomers_conditions (co\<lparr>limit := Some L, offset := Some K\<rparr>) = queryCustomers_conditions co"
    by (simp add: queryCustomers_conditions_def)
  have c2: "queryInvoices_conditions (io\<lparr>limit := Some L, offset := Some K\<rparr>) = queryInvoices_conditions io"
    by (simp add: queryInvoices_conditions_def)
  have c3: "queryAccounts_conditions (ao\<lparr>limit := Some L, offset := Some K\<rparr>) = queryAccounts_conditions ao"
    by (simp add: queryAccounts_conditions_def Let_def)
  have c4: "queryVendors_conditions (vo\<lparr>limit := Some L, offset := Some K\<rparr>) = queryVendors_conditions vo"
    by (simp add: queryVendors_conditions_def)
  have c5: "queryBills_conditions (bo\<lparr>limit := Some L, offset := Some K\<rparr>) = queryBills_conditions bo"
    by (simp add: queryBills_conditions_def)
  note shape = query_sql_where_of [OF _ assms(2,3)]
  have "query_sql (queryCustomers_args (co\<lparr>limit := Some L, offset := Some K\<rparr>))
           = spec_query ''Customer'' (queryCustomers_conditions co) L K"
    unfolding queryCustomers_args_def c1 using assms(1) queryCustomers_conditions_hd [of co]
    by (simp add: shape del: query_sql.simps)
  moreover have "query_sql (queryInvoices_args (io\<lparr>limit := Some L, offset := Some K\<rparr>))
           = spec_query ''Invoice'' (queryInvoices_conditions io) L K"
    unfolding queryInvoices_args_def c2 using assms(1) queryInvoices_conditions_hd [of io]
    by (simp add: shape del: query_sql.simps)
  moreover have "query_sql (queryAccounts_args (ao\<lparr>limit := Some L, offset := Some K\<rparr>))
           = spec_query ''Account'' (queryAccounts_conditions ao) L K"
    unfolding queryAccounts_args_def c3 queryAccounts_where
    using assms(1) queryAccounts_conditions_hd [of ao]
    by (simp add: shape del: query_sql.simps)
  moreover have "query_sql (queryVendors_args (vo\<lparr>limit := Some L, offset := Some K\<rparr>))
           = spec_query ''Vendor'' (queryVendors_conditions vo) L K"
    unfolding queryVendors_args_def c4 using assms(1) queryVendors_conditions_hd [of vo]
    by (simp add: shape del: query_sql.simps)
  moreover have "query_sql (queryBills_args (bo\<lparr>limit := Some L, offset := Some K\<rparr>))
           = spec_query ''Bill'' (queryBills_conditions bo) L K"
    unfolding queryBills_args_def c5 using assms(1) queryBills_conditions_hd [of bo]
    by (simp add: shape del: query_sql.simps)
  ultimately show ?thesis by blast
qed

text \<open>The shape at limit 25 and offset 50, on concrete options of each operation.\<close>

theorem list_operations_query_shape_witness:
  "(25::int) \<noteq> 0 \<and> \<bar>25::int\<bar> < 2 ^ 53 \<and> \<bar>50 + 1 :: int\<bar> < 2 ^ 53
   \<and> query_sql (queryCustomers_args
        \<lparr>limit = Some 25, offset = Some 50, activeOnly = Some False, search = None\<rparr>)
      = ''SELECT * FROM Customer STARTPOSITION 51 MAXRESULTS 25''
   \<and> query_sql (queryInvoices_args
        \<lparr>limit = Some 25, offset = Some 50, status = Some ''paid'',
         customerId = None, startDate = Some ''2024-01-01'', endDate = None\<rparr>)
      = ''SELECT * FROM Invoice WHERE Balance = '0' AND TxnDate >= '2024-01-01' STARTPOSITION 51 MAXRESULTS 25''
   \<and> query_sql (queryAccounts_args
        \<lparr>limit = Some 25, offset = Some 50, accountType = Some ''Bank''\<rparr>)
      = ''SELECT * FROM Account WHERE Active = true AND AccountType = 'Bank' STARTPOSITION 51 MAXRESULTS 25''
   \<and> query_sql (queryVendors_args
        \<lparr>limit = Some 25, offset = Some 50, activeOnly = None\<rparr>)
      = ''SELECT * FROM Vendor WHERE Active = true STARTPOSITION 51 MAXRESULTS 25''
   \<and> query_sql (queryBills_args
        \<lparr>limit = Some 25, offset = Some 50, status = Some ''unpaid'', vendorId = Some ''7''\<rparr>)
      = ''SELECT * FROM Bill WHERE VendorRef = '7' AND Balance > '0' STARTPOSITION 51 MAXRESULTS 25''"
proof -
  have n: "(25::int) \<noteq> 0" and l: "\<bar>25::int\<bar> < 2 ^ 53" and k: "\<bar>50 + 1 :: int\<bar> < 2 ^ 53"
    by simp_all
  have t51: "show_int 51 = ''51''" by code_simp
  have t25: "show_int 25 = ''25''" by code_simp
  show ?thesis
    using list_operations_query_shape [OF n l k, where
            co = "\<lparr>limit = None, offset = None, activeOnly = Some False, search = None\<rparr>"
        and io = "\<lparr>limit = None, offset = None, status = Some ''paid'',
          customerId = None, startDate = Some ''2024-01-01'', endDate = None\<rparr>"
        and ao = "\<lparr>limit = None, offset = None, accountType = Some ''Bank''\<rparr>"
        and vo = "\<lparr>limit = None, offset = None, activeOnly = None\<rparr>"
        and bo = "\<lparr>limit = None, offset = None, status = Some ''unpaid'', vendorId = Some ''7''\<rparr>"]
    by (simp add: spec_query_def queryCustomers_conditions_def queryInvoices_conditions_def
          queryAccounts_conditions_def queryVendors_conditions_def queryBills_conditions_def
          t51 t25 del: query_sql.simps)
qed

text \<open>
  C4 as stated fails at offset \<open>2^53 = 9007199254740992\<close>, an integer the tools'
  schema admits: \<open>offset + 1\<close> is rounded back to \<open>2^53\<close> and the query string reads
  \<open>STARTPOSITION 9007199254740992\<close>, not \<open>STARTPOSITION <O+1>\<close>. It also fails
  at two limits that a direct call of the method can pass: at limit 0 the limit is set
  and the query string asks for 100 results, not for 0, and at limit
  \<open>2^63 = 9223372036854775808\<close> the number is printed with its 16 shortest digits.
\<close>

theorem query_shape_counterexample:
  "query_sql (queryCustomers_args
      \<lparr>limit = Some 10, offset = Some 9007199254740992, activeOnly = None, search = None\<rparr>)
     = ''SELECT * FROM Customer WHERE Active = true STARTPOSITION 9007199254740992 MAXRESULTS 10''
   \<and> spec_query ''Customer''
        (queryCustomers_conditions
           \<lparr>limit = Some 10, offset = Some 9007199254740992, activeOnly = None, search = None\<rparr>)
        10 9007199254740992
     = ''SELECT * FROM Customer WHERE Active = true STARTPOSITION 9007199254740993 MAXRESULTS 10''
   \<and> query_sql (queryCustomers_args
      \<lparr>limit = Some 0, offset = Some 0, activeOnly = None, search = None\<rparr>)
     = ''SELECT * FROM Customer WHERE Active = true STARTPOSITION 1 MAXRESULTS 100''
   \<and> spec_query ''Customer''
        (queryCustomers_conditions \<lparr>limit = Some 0, offset = Some 0, activeOnly = None, search = None\<rparr>) 0 0
     = ''SELECT * FROM Customer WHERE Active = true STARTPOSITION 1 MAXRESULTS 0''
   \<and> query_sql (queryCustomers_args
      \<lparr>limit = Some 9223372036854775808, offset = Some 0, activeOnly = None, search = None\<rparr>)
     = ''SELECT * FROM Customer WHERE Active = true STARTPOSITION 1 MAXRESULTS 9223372036854776000''
   \<and> spec_query ''Customer''
        (queryCustomers_conditions
           \<lparr>limit = Some 9223372036854775808, offset = Some 0, activeOnly = None, search = None\<rparr>)
        9223372036854775808 0
     = ''SELECT * FROM Customer WHERE Active = true STARTPOSITION 1 MAXRESULTS 9223372036854775808''"
proof -
  have large: "show_int 9223372036854775808 = ''9223372036854775808''"
    by code_simp
  have e: "query_sql (queryCustomers_args
      \<lparr>limit = Some 9223372036854775808, offset = Some 0, activeOnly = None, search = None\<rparr>)
     = ''SELECT * FROM Customer WHERE Active = true STARTPOSITION 1 MAXRESULTS 9223372036854776000''"
    using conjunct1 [OF ToString_large]
    by (simp add: queryCustomers_args_def queryCustomers_conditions_def where_of_def
          round_double_1 ToString_1)
  have f: "spec_query ''Customer''
        (queryCustomers_conditions
           \<lparr>limit = Some 9223372036854775808, offset = Some 0, activeOnly = None, search = None\<rparr>)
        9223372036854775808 0
     = ''SELECT * FROM Customer WHERE Active = true STARTPOSITION 1 MAXRESULTS 9223372036854775808''"
    using large
    by (simp add: spec_query_def queryCustomers_conditions_def show_int_1)
  have big: "ToString (round_double (9007199254740992 + 1)) = ''9007199254740992''"
    unfolding round_double_tie by code_simp
  have exact: "show_int (9007199254740992 + 1) = ''9007199254740993''"
    by code_simp
  have s0: "show_int 0 = ''0''" by code_simp
  have s10: "show_int 10 = ''10''" by code_simp
  have a: "query_sql (queryCustomers_args
      \<lparr>limit = Some 10, offset = Some 9007199254740992, activeOnly = None, search = None\<rparr>)
     = ''SELECT * FROM Customer WHERE Active = true STARTPOSITION 9007199254740992 MAXRESULTS 10''"
    using big
    by (simp add: queryCustomers_args_def queryCustomers_conditions_def where_of_def ToString_10)
  have b: "spec_query ''Customer''
        (queryCustomers_conditions
           \<lparr>limit = Some 10, offset = Some 9007199254740992, activeOnly = None, search = None\<rparr>)
        10 9007199254740992
     = ''SELECT * FROM Customer WHERE Active = true STARTPOSITION 9007199254740993 MAXRESULTS 10''"
    using exact
    by (simp add: spec_query_def queryCustomers_conditions_def s10)
  have c: "query_sql (queryCustomers_args
      \<lparr>limit = Some 0, offset = Some 0, activeOnly = None, search = None\<rparr>)
     = ''SELECT * FROM Customer WHERE Active = true STARTPOSITION 1 MAXRESULTS 100''"
    by (simp add: queryCustomers_args_def queryCustomers_conditions_def where_of_def
          round_double_1 ToString_1 ToString_100)
  have d: "spec_query ''Customer''
        (queryCustomers_conditions \<lparr>limit = Some 0, offset = Some 0, activeOnly = None, search = None\<rparr>) 0 0
     = ''SELECT * FROM Customer WHERE Active = true STARTPOSITION 1 MAXRESULTS 0''"
    by (simp add: spec_query_def queryCustomers_conditions_def show_int_1 s0)
  from a b c d e f show ?thesis by blast
qed

subsection \<open>Invoice lines\<close>

lemma Line_nth:
  "i < length (lineItems data) \<Longrightarrow>
   Line (createInvoice_invoiceData data) ! i = sales_line (lineItems data ! i) i"
  by (simp add: createInvoice_invoiceData_def nth_enumerate_eq)

lemma Line_length: "length (Line (createInvoice_invoiceData data)) = length (lineItems data)"
  by (simp add: createInvoice_invoiceData_def)

text \<open>The body \<open>createInvoice\<close> posts, once the token step has given a token.\<close>

lemma createInvoice_sent:
  "snd (snd (createInvoice E c data)) =
    (case getAccessToken E c of
       (Inl e, c', sent) \<Rightarrow> sent
     | (Inr t, c', sent) \<Rightarrow>
         sent @ [Post (baseURL c @ ''/invoice'') (createInvoice_invoiceData data) (''Bearer '' @ t)])"
  by (simp add: createInvoice_def api_post_def api_request_def Let_def
           split: prod.splits sum.splits)

text \<open>
  A line item with a quantity other than zero becomes a line with
  \<open>Amount = amount \<times> quantity\<close>, \<open>Qty = quantity\<close> and \<open>UnitPrice = amount\<close>; one
  without quantity a line with \<open>Amount = amount\<close> and \<open>Qty = 1\<close>.
\<close>

lemma sales_line_quantity:
  "quantity item = Some q \<Longrightarrow> q \<noteq> 0 \<Longrightarrow>
   sales_line item idx =
     \<lparr>Id' = ToString (int idx + 1), Amount = amount item * q,
      DetailType = ''SalesItemLineDetail'', Description = description item,
      SalesItemLineDetail = \<lparr>Qty = q, UnitPrice = amount item\<rparr>\<rparr>"
  by (simp add: sales_line_def)

lemma sales_line_no_quantity:
  "quantity item = None \<Longrightarrow>
   sales_line item idx =
     \<lparr>Id' = ToString (int idx + 1), Amount = amount item,
      DetailType = ''SalesItemLineDetail'', Description = description item,
      SalesItemLineDetail = \<lparr>Qty = 1, UnitPrice = amount item\<rparr>\<rparr>"
  by (simp add: sales_line_def)

text \<open>
  C6, at a line item with quantity 0. The lines of the example invoice: the item
  \<open>{amount: 150, quantity: 2}\<close> gives \<open>Amount = 300\<close>, the item without quantity gives
  \<open>Amount = amount\<close> and \<open>Qty = 1\<close>, but the item \<open>{amount: 75, quantity: 0}\<close> gives
  \<open>Amount = 75\<close> and \<open>Qty = 1\<close>, where \<open>amount \<times> quantity\<close> is 0.
\<close>

theorem createInvoice_example_lines:
  "Line (createInvoice_invoiceData example_invoice) =
    [\<lparr>Id' = ''1'', Amount = 300, DetailType = ''SalesItemLineDetail'',
      Description = ''House Cleaning'', SalesItemLineDetail = \<lparr>Qty = 2, UnitPrice = 150\<rparr>\<rparr>,
     \<lparr>Id' = ''2'', Amount = 75, DetailType = ''SalesItemLineDetail'',
      Description = ''Window Washing'', SalesItemLineDetail = \<lparr>Qty = 1, UnitPrice = 75\<rparr>\<rparr>,
     \<lparr>Id' = ''3'', Amount = 200, DetailType = ''SalesItemLineDetail'',
      Description = ''Deep Carpet Clean'', SalesItemLineDetail = \<lparr>Qty = 1, UnitPrice = 200\<rparr>\<rparr>]"
proof -
  have t2: "ToString 2 = ''2''" by code_simp
  have t3: "ToString 3 = ''3''" by code_simp
  show ?thesis
    by (simp add: createInvoice_invoiceData_def example_invoice_def sales_line_def
          enumerate_eq_zip upt_rec round_double_1 ToString_1 t2 t3)
qed

text \<open>
  C10. A line item with the explicit quantity 0 becomes a sales line with \<open>Qty = 1\<close>
  and \<open>Amount = amount \<times> 1\<close>, the same line as if its quantity were absent.
\<close>

theorem zero_quantity_billed_as_one:
  assumes "i < length (lineItems data)" and "quantity (lineItems data ! i) = Some 0"
  shows "Qty (SalesItemLineDetail (Line (createInvoice_invoiceData data) ! i)) = 1
       \<and> Amount (Line (createInvoice_invoiceData data) ! i) = amount (lineItems data ! i) * 1
       \<and> Line (createInvoice_invoiceData data) ! i
           = Line (createInvoice_invoiceData
                (data\<lparr>lineItems := (lineItems data)[i := (lineItems data ! i)\<lparr>quantity := None\<rparr>]\<rparr>)) ! i"
proof -
  let ?data' = "data\<lparr>lineItems := (lineItems data)[i := (lineItems data ! i)\<lparr>quantity := None\<rparr>]\<rparr>"
  have line: "Line (createInvoice_invoiceData data) ! i = sales_line (lineItems data ! i) i"
    using assms(1) by (rule Line_nth)
  have i': "i < length (lineItems ?data')"
    using assms(1) by simp
  have line': "Line (createInvoice_invoiceData ?data') ! i
      = sales_line ((lineItems data ! i)\<lparr>quantity := None\<rparr>) i"
    using Line_nth [OF i'] assms(1) by simp
  have same: "sales_line ((lineItems data ! i)\<lparr>quantity := None\<rparr>) i = sales_line (lineItems data ! i) i"
    using assms(2) by (simp add: sales_line_def)
  have "Qty (SalesItemLineDetail (sales_line (lineItems data ! i) i)) = 1"
    using assms(2) by (simp add: sales_line_def)
  moreover have "Amount (sales_line (lineItems data ! i) i) = amount (lineItems data ! i) * 1"
    using assms(2) by (simp add: sales_line_def)
  ultimately show ?thesis
    unfolding line line' same by simp
qed

theorem zero_quantity_billed_as_one_witness:
  "1 < length (lineItems example_invoice)
   \<and> quantity (lineItems example_invoice ! 1) = Some 0
   \<and> Qty (SalesItemLineDetail (Line (createInvoice_invoiceData example_invoice) ! 1)) = 1
   \<and> Amount (Line (createInvoice_invoiceData example_invoice) ! 1) = 75"
proof -
  have a: "1 < length (lineItems example_invoice)"
    by (simp add: example_invoice_def)
  have b: "quantity (lineItems example_invoice ! 1) = Some 0"
    by (simp add: example_invoice_def)
  have c: "amount (lineItems example_invoice ! 1) = 75"
    by (simp add: example_invoice_def)
  note zq = zero_quantity_billed_as_one [OF a b]
  have "Qty (SalesItemLineDetail (Line (createInvoice_invoiceData example_invoice) ! 1)) = 1"
    using zq by blast
  moreover have "Amount (Line (createInvoice_invoiceData example_invoice) ! 1) = 75"
    using conjunct1 [OF conjunct2 [OF zq]] c by simp
  ultimately show ?thesis
    using a b by blast
qed

subsection \<open>Profit and loss report\<close>

lemma parseFloat_empty: "parseFloat [] = NaN"
  by (simp add: parseFloat_def)

lemma parseAmount_spec: "parseAmount rows d = spec_amount rows d"
proof (cases "find (\<lambda>r. type r = Some d \<or> group r = Some d) rows")
  case None
  then show ?thesis
    by (simp add: parseAmount_def spec_amount_def summary_value_def)
next
  case (Some r)
  show ?thesis
  proof (cases "Summary r")
    case None
    with Some show ?thesis
      by (simp add: parseAmount_def spec_amount_def summary_value_def)
  next
    case s: (Some s)
    show ?thesis
    proof (cases "ColData s")
      case None
      with Some s show ?thesis
        by (simp add: parseAmount_def spec_amount_def summary_value_def)
    next
      case cd: (Some cd)
      show ?thesis
      proof (cases "drop 1 cd")
        case Nil
        then have "\<not> 1 < length cd" by simp
        with Some s cd Nil show ?thesis
          by (simp add: parseAmount_def spec_amount_def summary_value_def)
      next
        case (Cons col rest)
        then have len: "1 < length cd" and col: "cd ! 1 = col"
          by (cases cd; cases "tl cd"; simp)+
        show ?thesis
        proof (cases "value' col")
          case None
          with Some s cd Cons len col show ?thesis
            by (simp add: parseAmount_def spec_amount_def summary_value_def)
        next
          case v: (Some v)
          show ?thesis
          proof (cases "v = []")
            case True
            with Some s cd Cons len col v show ?thesis
              by (simp add: parseAmount_def spec_amount_def summary_value_def parseFloat_empty)
          next
            case False
            with Some s cd Cons len col v show ?thesis
              by (simp add: parseAmount_def spec_amount_def summary_value_def or_zero_def
                    split: number.splits)
          qed
        qed
      qed
    qed
  qed
qed

text \<open>
  C7. Each of the five fields of the parsed report is the total of its discriminator as
  the specification words it: the parsed value of the second summary column of the first
  row whose \<open>type\<close> or \<open>group\<close> is the discriminator, and 0 when the row, the column
  value or a parsable number is missing. The parsing step is a total function: it has no
  error result. On the example report the \<open>Income\<close> summary \<open>10000.00\<close> gives
  \<open>totalIncome = 10000\<close>, and the missing groups, the unparsable value and the missing
  column give 0.
\<close>

theorem parseProfitAndLoss_totals:
  "parseProfitAndLoss report =
     \<lparr>totalIncome = spec_amount (report_rows report) ''Income'',
      totalCOGS = spec_amount (report_rows report) ''COGS'',
      grossProfit = spec_amount (report_rows report) ''GrossProfit'',
      totalExpenses = spec_amount (report_rows report) ''Expenses'',
      netIncome = spec_amount (report_rows report) ''NetIncome''\<rparr>
   \<and> parseProfitAndLoss example_report =
     \<lparr>totalIncome = Num 10000, totalCOGS = Num 0, grossProfit = Num 0,
      totalExpenses = Num 0, netIncome = Num 0\<rparr>"
proof -
  have general: "parseProfitAndLoss r =
     \<lparr>totalIncome = spec_amount (report_rows r) ''Income'',
      totalCOGS = spec_amount (report_rows r) ''COGS'',
      grossProfit = spec_amount (report_rows r) ''GrossProfit'',
      totalExpenses = spec_amount (report_rows r) ''Expenses'',
      netIncome = spec_amount (report_rows r) ''NetIncome''\<rparr>" for r :: "'b response_data"
    by (simp add: parseProfitAndLoss_def report_rows_def parseAmount_spec Let_def)
  have income: "parseFloat ''10000.00'' = Num 10000"
    by (simp add: parseFloat_def unsigned_literal_def StrWhiteSpaceChar_def is_digit_def
          decimal_def exponent_part_def)
  have na: "parseFloat ''n/a'' = NaN"
    by (simp add: parseFloat_def unsigned_literal_def StrWhiteSpaceChar_def is_digit_def
          decimal_def exponent_part_def)
  have "parseProfitAndLoss example_report =
     \<lparr>totalIncome = Num 10000, totalCOGS = Num 0, grossProfit = Num 0,
      totalExpenses = Num 0, netIncome = Num 0\<rparr>"
    unfolding general
    by (simp add: example_report_def report_rows_def spec_amount_def income na)
  with general show ?thesis by blast
qed

subsection \<open>Token management\<close>

lemma getAccessToken_cached:
  "accessToken c \<noteq> [] \<Longrightarrow> later (tokenExpiry c) (now E) \<Longrightarrow>
   getAccessToken E c = (Inr (accessToken c), c, [])"
  by (simp add: getAccessToken_def)

lemma getAccessToken_refresh:
  assumes "\<not> (accessToken c \<noteq> [] \<and> later (tokenExpiry c) (now E))"
      and "oauth E (token_request c) = Inr response"
  shows "getAccessToken E c =
    (Inr (access_token response),
     c\<lparr>accessToken := access_token response,
       tokenExpiry := new_Date (round_double (issued E
          + round_double (round_double (expires_in response - 60) * 1000))),
       config := (config c)\<lparr>refreshToken :=
          (if truthy (refresh_token response) then the (refresh_token response)
           else refreshToken (config c))\<rparr>\<rparr>,
     [token_request c])"
  using assms by (auto simp: getAccessToken_def Let_def)

text \<open>
  The expiry as the source computes it, in doubles: exact, and a valid date, when the
  clock reading is a time value and the exact expiry instant is within the range of a
  \<open>Date\<close>.
\<close>

lemma expiry_exact:
  assumes "\<bar>t\<bar> \<le> 8640000000000000" and "\<bar>t + (e - 60) * 1000\<bar> \<le> 8640000000000000"
  shows "new_Date (round_double (t + round_double (round_double (e - 60) * 1000)))
           = Some (t + (e - 60) * 1000)"
proof -
  from assms have p: "\<bar>(e - 60) * 1000\<bar> \<le> 17280000000000000"
    by linarith
  then have "\<bar>e - 60\<bar> < 2 ^ 53"
    by simp
  then have r1: "round_double (e - 60) = e - 60"
    by (rule round_double_safe)
  from p have "\<bar>(e - 60) * 1000\<bar> < 2 ^ 54"
    by simp
  moreover have "even ((e - 60) * 1000)"
    by simp
  ultimately have r2: "round_double ((e - 60) * 1000) = (e - 60) * 1000"
    by (rule round_double_even)
  from assms(2) have "\<bar>t + (e - 60) * 1000\<bar> < 2 ^ 53"
    by simp
  then have r3: "round_double (t + (e - 60) * 1000) = t + (e - 60) * 1000"
    by (rule round_double_safe)
  from assms(2) show ?thesis
    by (simp only: r1 r2 r3 new_Date_def if_True)
qed

text \<open>
  C1, as amended. When a refresh exchange takes place at a clock reading that is a
  time value, the authorization server answers \<open>{access_token: a, refresh_token: r,
  expires_in: e}\<close>, and the instant \<open>issued + (e - 60) \<times> 1000\<close> milliseconds is within
  the range of a \<open>Date\<close> (at most 8.64e15 ms from the epoch), \<open>getAccessToken\<close> sends
  that one token request, returns \<open>a\<close>, caches \<open>a\<close> with that instant as expiry, and
  stores \<open>r\<close> as the refresh token when one is provided (\<open>r\<close> present and not empty;
  the old one is kept otherwise). Every later call at a time before that expiry,
  against any remote, then returns the token \<open>a\<close> (not empty), sends nothing and leaves
  the client as it is.
\<close>

theorem refresh_exchange_then_cached:
  assumes "\<not> (accessToken c \<noteq> [] \<and> later (tokenExpiry c) (now E))"
      and "oauth E (token_request c) = Inr \<lparr>access_token = a, refresh_token = r, expires_in = e\<rparr>"
      and "\<bar>issued E\<bar> \<le> 8640000000000000"
      and "\<bar>issued E + (e - 60) * 1000\<bar> \<le> 8640000000000000"
  shows "(let c' = fst (snd (getAccessToken E c)) in
           getAccessToken E c = (Inr a, c', [token_request c])
         \<and> accessToken c' = a
         \<and> tokenExpiry c' = Some (issued E + (e - 60) * 1000)
         \<and> refreshToken (config c') = (if truthy r then the r else refreshToken (config c))
         \<and> (a \<noteq> [] \<longrightarrow>
              (\<forall>E' :: 'e remote. now E' < issued E + (e - 60) * 1000 \<longrightarrow>
                 getAccessToken E' c' = (Inr a, c', []))))"
proof -
  let ?c' = "fst (snd (getAccessToken E c))"
  note r = getAccessToken_refresh [OF assms(1,2)]
  note x = expiry_exact [OF assms(3,4)]
  have call: "getAccessToken E c = (Inr a, ?c', [token_request c])"
    by (simp add: r)
  have tok: "accessToken ?c' = a"
    by (simp add: r)
  have expiry: "tokenExpiry ?c' = Some (issued E + (e - 60) * 1000)"
    by (simp add: r x)
  have rot: "refreshToken (config ?c') = (if truthy r then the r else refreshToken (config c))"
    by (simp add: r)
  have again: "getAccessToken E' ?c' = (Inr a, ?c', [])"
    if "a \<noteq> []" and "now E' < issued E + (e - 60) * 1000" for E' :: "'e remote"
    using getAccessToken_cached [of ?c' E'] that tok expiry by simp
  from call tok expiry rot again show ?thesis
    unfolding Let_def by blast
qed

lemma after_refresh_eq:
  "after_refresh =
    \<lparr>config = example_config\<lparr>refreshToken := ''xyz''\<rparr>, accessToken = ''abc'',
     tokenExpiry = Some 3542000,
     baseURL = ''https://sandbox-quickbooks.api.intuit.com/v3/company/9341''\<rparr>"
proof -
  have "new_Date (round_double (2000 + round_double (round_double (3600 - 60) * 1000)))
          = Some (2000 + (3600 - 60) * 1000)"
    by (rule expiry_exact) simp_all
  then show ?thesis
    by (simp add: after_refresh_def getAccessToken_def QuickBooksClient_def example_remote_def
          example_config_def token_request_def new_Date_def Let_def)
qed

text \<open>
  The scenario of the specification: the exchange returns \<open>abc\<close>, \<open>xyz\<close> and 3600; the
  stored refresh token becomes \<open>xyz\<close>, and a call one millisecond before the expiry
  returns \<open>abc\<close> although the authorization server is then out of order.
\<close>

theorem refresh_exchange_then_cached_witness:
  "\<not> (accessToken (QuickBooksClient example_config) \<noteq> []
       \<and> later (tokenExpiry (QuickBooksClient example_config)) (now example_remote))
   \<and> oauth example_remote (token_request (QuickBooksClient example_config))
       = Inr \<lparr>access_token = ''abc'', refresh_token = Some ''xyz'', expires_in = 3600\<rparr>
   \<and> \<bar>issued example_remote\<bar> \<le> 8640000000000000
   \<and> \<bar>issued example_remote + (3600 - 60) * 1000\<bar> \<le> 8640000000000000
   \<and> fst (getAccessToken example_remote (QuickBooksClient example_config)) = Inr ''abc''
   \<and> refreshToken (config after_refresh) = ''xyz''
   \<and> tokenExpiry after_refresh = Some 3542000
   \<and> now later_remote < 3542000
   \<and> getAccessToken later_remote after_refresh = (Inr ''abc'', after_refresh, [])"
proof -
  have h1: "\<not> (accessToken (QuickBooksClient example_config) \<noteq> []
       \<and> later (tokenExpiry (QuickBooksClient example_config)) (now example_remote))"
    by (simp add: QuickBooksClient_def)
  have h2: "oauth example_remote (token_request (QuickBooksClient example_config))
       = Inr \<lparr>access_token = ''abc'', refresh_token = Some ''xyz'', expires_in = 3600\<rparr>"
    by (simp add: example_remote_def)
  have h3: "\<bar>issued example_remote\<bar> \<le> 8640000000000000"
    by (simp add: example_remote_def)
  have h4: "\<bar>issued example_remote + (3600 - 60) * 1000\<bar> \<le> 8640000000000000"
    by (simp add: example_remote_def)
  have h5: "now later_remote < 3542000"
    by (simp add: later_remote_def)
  have i: "issued example_remote + (3600 - 60) * 1000 = 3542000"
    by (simp add: example_remote_def)
  note t = refresh_exchange_then_cached
    [OF h1 h2 h3 h4, unfolded Let_def i, folded after_refresh_def]
  have "fst (getAccessToken example_remote (QuickBooksClient example_config)) = Inr ''abc''"
    by (simp add: conjunct1 [OF t])
  moreover have "refreshToken (config after_refresh) = ''xyz''"
  proof -
    have "refreshToken (config after_refresh) =
        (if truthy (Some ''xyz'') then the (Some ''xyz'')
         else refreshToken (config (QuickBooksClient example_config)))"
      using t by blast
    then show ?thesis
      by simp
  qed
  moreover have "tokenExpiry after_refresh = Some 3542000"
    using t by blast
  moreover have "getAccessToken later_remote after_refresh = (Inr ''abc'', after_refresh, [])"
  proof -
    have "''abc'' \<noteq> []"
      by simp
    with t h5 show ?thesis
      by blast
  qed
  ultimately show ?thesis
    using h1 h2 h3 h4 h5 by blast
qed

lemma long_lifetime_expiry:
  "new_Date (round_double (2000
      + round_double (round_double (10000000000000000 - 60) * 1000))) = None"
  by code_simp

lemma after_long_lifetime_eq:
  "after_long_lifetime =
    \<lparr>config = example_config\<lparr>refreshToken := ''xyz''\<rparr>, accessToken = ''abc'',
     tokenExpiry = None,
     baseURL = ''https://sandbox-quickbooks.api.intuit.com/v3/company/9341''\<rparr>"
  using long_lifetime_expiry
  by (simp add: after_long_lifetime_def getAccessToken_def QuickBooksClient_def
        long_lifetime_remote_def example_config_def token_request_def new_Date_def Let_def)

text \<open>
  C1 as stated fails for a long lifetime. The exchange returns the tokens \<open>abc\<close> and
  \<open>xyz\<close> and \<open>expires_in = 10000000000000000\<close>: the instant issue time plus
  \<open>e - 60\<close> seconds is beyond the range of a \<open>Date\<close>, the stored expiry is the invalid
  date, not that instant, and the next call, at clock reading 1000 and so long before
  that instant, sends a token request again.
\<close>

theorem long_lifetime_counterexample:
  "oauth long_lifetime_remote (token_request (QuickBooksClient example_config))
       = Inr \<lparr>access_token = ''abc'', refresh_token = Some ''xyz'',
              expires_in = 10000000000000000\<rparr>
   \<and> getAccessToken long_lifetime_remote (QuickBooksClient example_config)
       = (Inr ''abc'', after_long_lifetime, [token_request (QuickBooksClient example_config)])
   \<and> tokenExpiry after_long_lifetime = None
   \<and> now long_lifetime_remote
       < issued long_lifetime_remote + (10000000000000000 - 60) * 1000
   \<and> getAccessToken long_lifetime_remote after_long_lifetime
       = (Inr ''abc'', after_long_lifetime, [token_request after_long_lifetime])"
proof -
  have a: "oauth long_lifetime_remote (token_request (QuickBooksClient example_config))
       = Inr \<lparr>access_token = ''abc'', refresh_token = Some ''xyz'',
              expires_in = 10000000000000000\<rparr>"
    by (simp add: long_lifetime_remote_def)
  have b: "getAccessToken long_lifetime_remote (QuickBooksClient example_config)
       = (Inr ''abc'', after_long_lifetime, [token_request (QuickBooksClient example_config)])"
    unfolding after_long_lifetime_eq using long_lifetime_expiry
    by (simp add: getAccessToken_def QuickBooksClient_def
        long_lifetime_remote_def example_config_def token_request_def new_Date_def Let_def)
  have c: "tokenExpiry after_long_lifetime = None"
    by (simp add: after_long_lifetime_eq)
  have d: "now long_lifetime_remote
       < issued long_lifetime_remote + (10000000000000000 - 60) * 1000"
    by (simp add: long_lifetime_remote_def)
  have e: "getAccessToken long_lifetime_remote after_long_lifetime
       = (Inr ''abc'', after_long_lifetime, [token_request after_long_lifetime])"
    unfolding after_long_lifetime_eq using long_lifetime_expiry
    by (simp add: getAccessToken_def long_lifetime_remote_def example_config_def
        token_request_def Let_def)
  from a b c d e show ?thesis by blast
qed

subsection \<open>Error handling\<close>

lemma api_request_fails:
  "request_fails E c mk e \<longleftrightarrow> fst (api_request E c mk) = Inl e"
  by (simp add: request_fails_def api_request_def Let_def split: prod.splits sum.splits)

lemma api_request_cases:
  obtains r c' sent where "api_request E c mk = (r, c', sent)"
  by (cases "api_request E c mk") blast

lemma query_propagates:
  assumes "request_fails E c (Get (baseURL c @ ''/query'') [(''query'', query_sql args)]) e"
  shows "fst (query E c args) = Inl e"
proof -
  obtain r c' sent
    where ar: "api_request E c (Get (baseURL c @ ''/query'') [(''query'', query_sql args)])
                 = (r, c', sent)"
    by (rule api_request_cases)
  with assms have "r = Inl e"
    by (simp add: api_request_fails)
  with ar show ?thesis
    by (simp add: query_def api_get_def Let_def)
qed

text \<open>
  C8. \<open>getCustomer\<close> never returns an error, and returns \<open>null\<close> whenever its request
  fails, whether in the token step or at the API. Each other operation
  (\<open>queryCustomers\<close>, \<open>queryInvoices\<close>, \<open>queryAccounts\<close>, \<open>queryVendors\<close>,
  \<open>queryBills\<close>, \<open>createInvoice\<close>, \<open>getProfitAndLossReport\<close>) returns the error \<open>e\<close>
  with which its request fails.
\<close>

theorem getCustomer_swallows_others_propagate:
  "(\<exists>r. fst (getCustomer E c i) = Inr r)
   \<and> (request_fails E c (Get (baseURL c @ ''/customer/'' @ i) []) e
        \<longrightarrow> fst (getCustomer E c i) = Inr None)
   \<and> (request_fails E c
          (Get (baseURL c @ ''/query'') [(''query'', query_sql (queryCustomers_args co))]) e
        \<longrightarrow> fst (queryCustomers E c co) = Inl e)
   \<and> (request_fails E c
          (Get (baseURL c @ ''/query'') [(''query'', query_sql (queryInvoices_args io))]) e
        \<longrightarrow> fst (queryInvoices E c io) = Inl e)
   \<and> (request_fails E c
          (Get (baseURL c @ ''/query'') [(''query'', query_sql (queryAccounts_args ao))]) e
        \<longrightarrow> fst (queryAccounts E c ao) = Inl e)
   \<and> (request_fails E c
          (Get (baseURL c @ ''/query'') [(''query'', query_sql (queryVendors_args vo))]) e
        \<longrightarrow> fst (queryVendors E c vo) = Inl e)
   \<and> (request_fails E c
          (Get (baseURL c @ ''/query'') [(''query'', query_sql (queryBills_args bo))]) e
        \<longrightarrow> fst (queryBills E c bo) = Inl e)
   \<and> (request_fails E c
          (Post (baseURL c @ ''/invoice'') (createInvoice_invoiceData data)) e
        \<longrightarrow> fst (createInvoice E c data) = Inl e)
   \<and> (request_fails E c
          (Get (baseURL c @ ''/reports/ProfitAndLoss'')
             [(''start_date'', startDate'), (''end_date'', endDate')]) e
        \<longrightarrow> fst (getProfitAndLossReport E c startDate' endDate') = Inl e)"
proof -
  have never: "\<exists>r. fst (getCustomer E c i) = Inr r"
  proof -
    obtain r c' sent
      where ar: "api_request E c (Get (baseURL c @ ''/customer/'' @ i) []) = (r, c', sent)"
      by (rule api_request_cases)
    then show ?thesis
      by (cases r) (simp_all add: getCustomer_def api_get_def)
  qed
  have swallow: "fst (getCustomer E c i) = Inr None"
    if f: "request_fails E c (Get (baseURL c @ ''/customer/'' @ i) []) e"
  proof -
    obtain r c' sent
      where ar: "api_request E c (Get (baseURL c @ ''/customer/'' @ i) []) = (r, c', sent)"
      by (rule api_request_cases)
    with f have "r = Inl e"
      by (simp add: api_request_fails)
    with ar show ?thesis
      by (simp add: getCustomer_def api_get_def)
  qed
  have invoice: "fst (createInvoice E c data) = Inl e"
    if f: "request_fails E c (Post (baseURL c @ ''/invoice'') (createInvoice_invoiceData data)) e"
  proof -
    obtain r c' sent
      where ar: "api_request E c (Post (baseURL c @ ''/invoice'') (createInvoice_invoiceData data))
                   = (r, c', sent)"
      by (rule api_request_cases)
    with f have "r = Inl e"
      by (simp add: api_request_fails)
    with ar show ?thesis
      by (simp add: createInvoice_def api_post_def)
  qed
  have report: "fst (getProfitAndLossReport E c startDate' endDate') = Inl e"
    if f: "request_fails E c (Get (baseURL c @ ''/reports/ProfitAndLoss'')
             [(''start_date'', startDate'), (''end_date'', endDate')]) e"
  proof -
    obtain r c' sent
      where ar: "api_request E c (Get (baseURL c @ ''/reports/ProfitAndLoss'')
                   [(''start_date'', startDate'), (''end_date'', endDate')]) = (r, c', sent)"
      by (rule api_request_cases)
    with f have "r = Inl e"
      by (simp add: api_request_fails)
    with ar show ?thesis
      by (simp add: getProfitAndLossReport_def api_get_def)
  qed
  from never swallow invoice report show ?thesis
    unfolding queryCustomers_def queryInvoices_def queryAccounts_def queryVendors_def
      queryBills_def
    using query_propagates [of E c _ e] by blast
qed

text \<open>
  Against the example remote, whose API fails every request with status 500 after a
  successful token step, \<open>getCustomer\<close> returns \<open>null\<close>, and \<open>queryCustomers\<close>,
  \<open>createInvoice\<close> and \<open>getProfitAndLossReport\<close> return that error; with the
  authorization server out of order, \<open>getCustomer\<close> returns \<open>null\<close> and
  \<open>queryVendors\<close> returns the network error.
\<close>

theorem getCustomer_swallows_others_propagate_witness:
  "request_fails example_remote (QuickBooksClient example_config)
      (Get (baseURL (QuickBooksClient example_config) @ ''/customer/'' @ ''42'') [])
      (AxiosError ''Request failed with status code 500'')
   \<and> fst (getCustomer example_remote (QuickBooksClient example_config) ''42'') = Inr None
   \<and> fst (queryCustomers example_remote (QuickBooksClient example_config)
        \<lparr>limit = None, offset = None, activeOnly = None, search = None\<rparr>)
      = Inl (AxiosError ''Request failed with status code 500'')
   \<and> fst (createInvoice example_remote (QuickBooksClient example_config) example_invoice)
      = Inl (AxiosError ''Request failed with status code 500'')
   \<and> fst (getProfitAndLossReport example_remote (QuickBooksClient example_config)
        ''2024-01-01'' ''2024-12-31'')
      = Inl (AxiosError ''Request failed with status code 500'')
   \<and> request_fails later_remote (QuickBooksClient example_config)
      (Get (baseURL (QuickBooksClient example_config) @ ''/customer/'' @ ''42'') [])
      (AxiosError ''Network Error'')
   \<and> fst (getCustomer later_remote (QuickBooksClient example_config) ''42'') = Inr None
   \<and> fst (queryVendors later_remote (QuickBooksClient example_config)
        \<lparr>limit = None, offset = None, activeOnly = None\<rparr>)
      = Inl (AxiosError ''Network Error'')"
proof -
  let ?c = "QuickBooksClient example_config"
  let ?e = "AxiosError ''Request failed with status code 500''"
  let ?n = "AxiosError ''Network Error''"
  have f: "request_fails example_remote ?c mk ?e" for mk
    by (simp add: request_fails_def getAccessToken_def QuickBooksClient_def example_remote_def
          Let_def)
  have g: "request_fails later_remote ?c mk ?n" for mk
    by (simp add: request_fails_def getAccessToken_def QuickBooksClient_def later_remote_def
          Let_def)
  note a = getCustomer_swallows_others_propagate
    [where E = example_remote and c = ?c and e = ?e and i = "''42''"
       and co = "\<lparr>limit = None, offset = None, activeOnly = None, search = None\<rparr>"
       and data = example_invoice and startDate' = "''2024-01-01''"
       and endDate' = "''2024-12-31''"]
  note b = getCustomer_swallows_others_propagate
    [where E = later_remote and c = ?c and e = ?n and i = "''42''"
       and vo = "\<lparr>limit = None, offset = None, activeOnly = None\<rparr>"]
  have "fst (getCustomer example_remote ?c ''42'') = Inr None"
    using a f by blast
  moreover have "fst (queryCustomers example_remote ?c
        \<lparr>limit = None, offset = None, activeOnly = None, search = None\<rparr>) = Inl ?e"
    using a f by blast
  moreover have "fst (createInvoice example_remote ?c example_invoice) = Inl ?e"
    using a f by blast
  moreover have "fst (getProfitAndLossReport example_remote ?c ''2024-01-01'' ''2024-12-31'') = Inl ?e"
    using a f by blast
  moreover have "fst (getCustomer later_remote ?c ''42'') = Inr None"
    using b g by blast
  moreover have "fst (queryVendors later_remote ?c
        \<lparr>limit = None, offset = None, activeOnly = None\<rparr>) = Inl ?n"
    using b g by blast
  ultimately show ?thesis
    using f g by blast
qed

subsection \<open>Frame of the configuration\<close>

lemma getAccessToken_frame: "config_frame E c (fst (snd (getAccessToken E c)))"
proof (cases "accessToken c \<noteq> [] \<and> later (tokenExpiry c) (now E)")
  case True
  then show ?thesis
    by (simp add: config_frame_def getAccessToken_def)
next
  case False
  show ?thesis
  proof (cases "oauth E (token_request c)")
    case (Inl e)
    with False show ?thesis
      by (simp add: config_frame_def getAccessToken_def Let_def)
  next
    case (Inr response)
    show ?thesis
    proof (cases "refresh_token response")
      case None
      with False Inr show ?thesis
        by (simp add: config_frame_def getAccessToken_def Let_def)
    next
      case (Some r)
      with False Inr show ?thesis
        by (cases "r = []") (simp_all add: config_frame_def rotated_def getAccessToken_def Let_def)
    qed
  qed
qed

lemma api_request_client:
  "fst (snd (api_request E c mk)) = fst (snd (getAccessToken E c))"
  by (simp add: api_request_def Let_def split: prod.splits sum.splits)

lemma query_client: "fst (snd (query E c args)) = fst (snd (getAccessToken E c))"
proof -
  obtain r c' sent
    where ar: "api_request E c (Get (baseURL c @ ''/query'') [(''query'', query_sql args)])
                 = (r, c', sent)"
    by (rule api_request_cases)
  then have "fst (snd (query E c args)) = c'"
    by (cases r) (simp_all add: query_def api_get_def Let_def split: option.splits)
  with ar show ?thesis
    using api_request_client
      [of E c "Get (baseURL c @ ''/query'') [(''query'', query_sql args)]"]
    by simp
qed

text \<open>
  C9. The constructor stores the configuration it is given, and from the client before
  to the client after \<open>getAccessToken\<close> and each of the eight public operations the
  client id, client secret, company id and environment are unchanged, and the refresh
  token is unchanged unless a token refresh took place, succeeded and returned that
  (non-empty) refresh token.
\<close>

theorem operations_config_frame:
  "config (QuickBooksClient cfg) = cfg
   \<and> config_frame E c (fst (snd (getAccessToken E c)))
   \<and> config_frame E c (fst (snd (queryCustomers E c co)))
   \<and> config_frame E c (fst (snd (getCustomer E c i)))
   \<and> config_frame E c (fst (snd (queryInvoices E c io)))
   \<and> config_frame E c (fst (snd (createInvoice E c data)))
   \<and> config_frame E c (fst (snd (queryAccounts E c ao)))
   \<and> config_frame E c (fst (snd (queryVendors E c vo)))
   \<and> config_frame E c (fst (snd (queryBills E c bo)))
   \<and> config_frame E c (fst (snd (getProfitAndLossReport E c startDate' endDate')))"
proof -
  have ctor: "config (QuickBooksClient cfg) = cfg"
    by (simp add: QuickBooksClient_def)
  have customer: "fst (snd (getCustomer E c i)) = fst (snd (getAccessToken E c))"
  proof -
    obtain r c' sent
      where ar: "api_request E c (Get (baseURL c @ ''/customer/'' @ i) []) = (r, c', sent)"
      by (rule api_request_cases)
    then have "fst (snd (getCustomer E c i)) = c'"
      by (cases r) (simp_all add: getCustomer_def api_get_def)
    with ar show ?thesis
      using api_request_client [of E c "Get (baseURL c @ ''/customer/'' @ i) []"] by simp
  qed
  have invoice: "fst (snd (createInvoice E c data)) = fst (snd (getAccessToken E c))"
  proof -
    obtain r c' sent
      where ar: "api_request E c (Post (baseURL c @ ''/invoice'') (createInvoice_invoiceData data))
                   = (r, c', sent)"
      by (rule api_request_cases)
    then have "fst (snd (createInvoice E c data)) = c'"
      by (cases r) (simp_all add: createInvoice_def api_post_def)
    with ar show ?thesis
      using api_request_client
        [of E c "Post (baseURL c @ ''/invoice'') (createInvoice_invoiceData data)"]
      by simp
  qed
  have report: "fst (snd (getProfitAndLossReport E c startDate' endDate'))
      = fst (snd (getAccessToken E c))"
  proof -
    obtain r c' sent
      where ar: "api_request E c (Get (baseURL c @ ''/reports/ProfitAndLoss'')
                   [(''start_date'', startDate'), (''end_date'', endDate')]) = (r, c', sent)"
      by (rule api_request_cases)
    then have "fst (snd (getProfitAndLossReport E c startDate' endDate')) = c'"
      by (cases r) (simp_all add: getProfitAndLossReport_def api_get_def)
    with ar show ?thesis
      using api_request_client
        [of E c "Get (baseURL c @ ''/reports/ProfitAndLoss'')
                   [(''start_date'', startDate'), (''end_date'', endDate')]"]
      by simp
  qed
  show ?thesis
    unfolding queryCustomers_def queryInvoices_def queryAccounts_def queryVendors_def
      queryBills_def query_client customer invoice report
    using ctor getAccessToken_frame [of E c] by blast
qed

text \<open>
  On the example: the refresh rotates the refresh token from \<open>old\<close> to \<open>xyz\<close> and
  leaves the four other fields as they were.
\<close>

theorem operations_config_frame_witness:
  "config_frame example_remote (QuickBooksClient example_config)
      (fst (snd (queryCustomers example_remote (QuickBooksClient example_config)
         \<lparr>limit = None, offset = None, activeOnly = None, search = None\<rparr>)))
   \<and> config (fst (snd (queryCustomers example_remote (QuickBooksClient example_config)
         \<lparr>limit = None, offset = None, activeOnly = None, search = None\<rparr>)))
      = example_config\<lparr>refreshToken := ''xyz''\<rparr>"
proof -
  have "fst (snd (queryCustomers example_remote (QuickBooksClient example_config)
         \<lparr>limit = None, offset = None, activeOnly = None, search = None\<rparr>)) = after_refresh"
    by (simp add: queryCustomers_def query_client after_refresh_def)
  then show ?thesis
    using operations_config_frame [of example_config example_remote
        "QuickBooksClient example_config"
        "\<lparr>limit = None, offset = None, activeOnly = None, search = None\<rparr>"]
    by (simp add: after_refresh_eq)
qed

end
